theory Spec2Isabelle
  imports Main "HOL-Library.Word"
begin

text \<open>
  A model of the encryption bridge and the meta-transaction manager of the FHE counter
  front end: the key material cache (\<open>PublicKeyStorage\<close>), the encrypted input builder
  (\<open>FHEVMClient\<close>), the creation of the engine instance (\<open>createFhevmInstance\<close>), the
  manager (\<open>FHEVMMetaManager\<close>) and the React hook built on it
  (\<open>useFHEVMMetaTransactions\<close>). Asynchronous functions are modelled by their results; what
  they read from the wallet, the chain, the clock, the random generator, the browser
  storage and the engine comes in as arguments, and what they leave behind (the cache, the
  hook's state) is returned.
\<close>

section \<open>Errors\<close>

text \<open>
  Every \<open>throw\<close> and every rejected promise of the TypeScript sources is a value of this
  type; a function that can fail returns \<open>error + 'a\<close> with \<open>Inl\<close> for the failure.
  The comment on each constructor gives the message or the place of the throw.
\<close>

datatype error =
    NumericFault              \<comment> \<open>ethers getUint: "unsigned value cannot be negative"\<close>
  | Overflow                  \<comment> \<open>ethers getBigInt: a number outside the safe integers ("overflow")\<close>
  | BufferOverrun             \<comment> \<open>ethers zeroPadValue: "padding exceeds data length"\<close>
  | InvalidBytesLike          \<comment> \<open>ethers getBytes: "invalid BytesLike value"\<close>
  | InvalidAddress            \<comment> \<open>ethers getAddress: "invalid address"\<close>
  | BadAddressChecksum        \<comment> \<open>ethers getAddress: "bad address checksum"\<close>
  | BadIcapChecksum           \<comment> \<open>ethers getAddress: "bad icap checksum"\<close>
  | ValueOutOfBounds          \<comment> \<open>ethers NumberCoder: "value out-of-bounds"\<close>
  | IncorrectDataLength       \<comment> \<open>ethers FixedBytesCoder: "incorrect data length"\<close>
  | InvalidArgument           \<comment> \<open>ethers coder given a value of the wrong JavaScript type\<close>
  | TypeError                 \<comment> \<open>JavaScript: "handle?.substring is not a function"\<close>
  | CallException             \<comment> \<open>ethers wait(): "transaction execution reverted"\<close>
  | External string           \<comment> \<open>a failure of the outside world (wallet, RPC node, engine, CDN)\<close>
  | MissingHandleOrProof      \<comment> \<open>"Encrypted input missing handle or proof"\<close>
  | SdkFailed error           \<comment> \<open>"fhevmjs SDK failed: ..."\<close>
  | Cancelled                 \<comment> \<open>"FHEVM operation was cancelled"\<close>
  | InvalidAcl string         \<comment> \<open>"Invalid ACL address: ..."\<close>
  | ManagerNotInitialized     \<comment> \<open>"FHEVMMetaManager not initialized" (fhevm-meta.ts)\<close>
  | HookNotInitialized        \<comment> \<open>"FHEVM Meta Manager not initialized" (the React hook)\<close>
  | NetworkNotSupported int   \<comment> \<open>"Network N is not supported for FHEVM operations"\<close>
  | FunctionNotFound string   \<comment> \<open>"Function f not found in contract"\<close>
  | MetaTransactionFailed error   \<comment> \<open>"Meta transaction failed: ..."\<close>
  | EncryptParameterFailed string error   \<comment> \<open>"Failed to encrypt parameter p: ..."\<close>
  | ManagerInitFailed error   \<comment> \<open>"FHEVM Meta Manager initialization failed: ..."\<close>
  | InitializationFailed error    \<comment> \<open>the hook's error text "Initialization failed: ..."\<close>
  | TransactionFailed error   \<comment> \<open>the hook's error text "Transaction failed: ..."\<close>

definition bindE :: "error + 'a \<Rightarrow> ('a \<Rightarrow> error + 'b) \<Rightarrow> error + 'b" where
  "bindE m f = (case m of Inl e \<Rightarrow> Inl e | Inr x \<Rightarrow> f x)"

definition catchE :: "error + 'a \<Rightarrow> (error \<Rightarrow> error + 'a) \<Rightarrow> error + 'a" where
  "catchE m h = (case m of Inl e \<Rightarrow> h e | Inr x \<Rightarrow> Inr x)"

definition succeeds :: "error + 'a \<Rightarrow> bool" where
  "succeeds m = (case m of Inl _ \<Rightarrow> False | Inr _ \<Rightarrow> True)"

section \<open>Bytes and hex strings (the ethers data helpers the sources call)\<close>

text \<open>
  The sources use \<open>ethers\<close> (version 6) for all byte handling. A \<open>DataHexString\<close> that only
  travels between two ethers calls is modelled by the bytes it denotes; the strings that
  enter from the caller (addresses) and leave to the caller (handle, proof) are real
  strings, parsed by \<open>getBytes\<close> and printed by \<open>hexlify\<close>.
\<close>

type_synonym byte = "8 word"

definition hexChar :: "nat \<Rightarrow> char" where
  "hexChar n = ''0123456789abcdef'' ! n"

definition hexVal :: "char \<Rightarrow> nat option" where
  "hexVal c =
     (let k = (of_char c :: nat) in
      if 48 \<le> k \<and> k \<le> 57 then Some (k - 48)
      else if 97 \<le> k \<and> k \<le> 102 then Some (k - 87)
      else if 65 \<le> k \<and> k \<le> 70 then Some (k - 55)
      else None)"

definition hex2 :: "byte \<Rightarrow> string" where
  "hex2 b = [hexChar (unat b div 16), hexChar (unat b mod 16)]"

definition unhex2 :: "char \<Rightarrow> char \<Rightarrow> byte option" where
  "unhex2 a b =
     (case hexVal a of None \<Rightarrow> None
      | Some h \<Rightarrow> (case hexVal b of None \<Rightarrow> None | Some l \<Rightarrow> Some (of_nat (16 * h + l))))"

text \<open>\<open>hexlify\<close>: \<open>0x\<close> followed by two lower-case hex digits per byte.\<close>

definition hexlify :: "byte list \<Rightarrow> string" where
  "hexlify bs = ''0x'' @ concat (map hex2 bs)"

fun parseHexPairs :: "string \<Rightarrow> byte list option" where
  "parseHexPairs [] = Some []"
| "parseHexPairs [a] = None"
| "parseHexPairs (a # b # r) =
     (case unhex2 a b of None \<Rightarrow> None
      | Some x \<Rightarrow> (case parseHexPairs r of None \<Rightarrow> None | Some xs \<Rightarrow> Some (x # xs)))"

text \<open>
  \<open>getBytes\<close> on a string: accepted exactly when it matches
  \<open>/^0x(?:[0-9a-f][0-9a-f])*$/i\<close> (the flag makes the prefix \<open>0X\<close> pass as well), otherwise
  it throws.
\<close>

definition getBytes :: "string \<Rightarrow> error + byte list" where
  "getBytes s =
     (if take 2 s = ''0x'' \<or> take 2 s = ''0X''
      then (case parseHexPairs (drop 2 s) of None \<Rightarrow> Inl InvalidBytesLike | Some bs \<Rightarrow> Inr bs)
      else Inl InvalidBytesLike)"

text \<open>\<open>toUtf8Bytes\<close> on the ASCII literals and decimal strings the sources pass.\<close>

definition toUtf8Bytes :: "string \<Rightarrow> byte list" where
  "toUtf8Bytes s = map (\<lambda>c. of_nat (of_char c)) s"

subsection \<open>Numbers\<close>

text \<open>
  A JavaScript \<open>number\<close> is modelled by an \<open>int\<close>: the numbers that are integers. ethers
  refuses a number outside the safe integers (\<open>maxValue = 0x1fffffffffffff\<close>) and, for an
  unsigned reading, a negative one. (It refuses a number with a fraction as well; those are
  outside the model.)
\<close>

definition maxValue :: int where
  "maxValue = 9007199254740991"

definition getBigInt :: "int \<Rightarrow> error + int" where
  "getBigInt v = (if v < - maxValue \<or> maxValue < v then Inl Overflow else Inr v)"

definition getUint :: "int \<Rightarrow> error + nat" where
  "getUint v = bindE (getBigInt v) (\<lambda>n. if n < 0 then Inl NumericFault else Inr (nat n))"

text \<open>
  The bytes of \<open>n.toString(16)\<close> padded to an even number of digits: big-endian, no
  leading zero byte, and one zero byte for 0.
\<close>

fun beBytes :: "nat \<Rightarrow> byte list" where
  "beBytes n = (if n < 256 then [of_nat n] else beBytes (n div 256) @ [of_nat (n mod 256)])"

declare beBytes.simps [simp del]

definition toBeHex :: "int \<Rightarrow> error + byte list" where
  "toBeHex v = bindE (getUint v) (\<lambda>n. Inr (beBytes n))"

definition zeroPadValue :: "byte list \<Rightarrow> nat \<Rightarrow> error + byte list" where
  "zeroPadValue bs n =
     (if length bs \<le> n then Inr (replicate (n - length bs) 0 @ bs) else Inl BufferOverrun)"

text \<open>Reading a big-endian byte string as a number (what an ABI decoder does with a word).\<close>

definition fromBe :: "byte list \<Rightarrow> nat" where
  "fromBe bs = foldl (\<lambda>acc b. 256 * acc + unat b) 0 bs"

text \<open>JavaScript's \<open>String(n)\<close> for a safe integer: decimal digits, with a minus sign.\<close>

fun digits :: "nat \<Rightarrow> string" where
  "digits n = (if n < 10 then [char_of (48 + n)] else digits (n div 10) @ [char_of (48 + n mod 10)])"

declare digits.simps [simp del]

definition numToString :: "int \<Rightarrow> string" where
  "numToString v = (if v < 0 then ''-'' @ digits (nat (- v)) else digits (nat v))"

subsection \<open>The hash\<close>

text \<open>
  \<open>keccak256\<close> is a parameter of the model: any function from byte strings to 256-bit
  digests, written \<open>K\<close> below. ethers returns the digest as 32 bytes.
\<close>

type_synonym hash = "byte list \<Rightarrow> 256 word"

definition wordBytes :: "256 word \<Rightarrow> byte list" where
  "wordBytes w = map (\<lambda>i. ucast (drop_bit (8 * (31 - i)) w)) [0..<32]"

definition keccak256 :: "hash \<Rightarrow> byte list \<Rightarrow> byte list" where
  "keccak256 K bs = wordBytes (K bs)"

text \<open>A fixed digest function, used where a closed example needs a concrete hash.\<close>

definition zeroHash :: hash where
  "zeroHash bs = 0"

subsection \<open>Addresses\<close>

text \<open>
  \<open>getAddress\<close> accepts two forms. The hex form is forty hex digits with or without \<open>0x\<close>
  (\<open>/^(0x)?[0-9a-fA-F]{40}$/\<close>); when the digits mix upper and lower case they must agree
  with the checksum casing, which is computed from the hash of the lower-case digits. The
  ICAP form is \<open>XE\<close>, two check digits and thirty or thirty-one base-36 digits
  (\<open>/^XE[0-9]{2}[0-9A-Za-z]{30,31}$/\<close>); the check digits must be the IBAN checksum, and the
  address is the number the base-36 digits denote.

  ethers returns the checksummed hex string of the address. The model returns the bytes of
  the number that string denotes, at least twenty of them: the twenty bytes of the digits
  for the hex form; for the ICAP form the big-endian bytes of the number padded to twenty
  (ethers pads the hex digits to forty and does not bound the number, so thirty-one base-36
  digits can give forty-one hex digits, which are twenty-one bytes here).
\<close>

definition isHexDigit :: "char \<Rightarrow> bool" where
  "isHexDigit c = (hexVal c \<noteq> None)"

definition isUpperHex :: "char \<Rightarrow> bool" where
  "isUpperHex c = (65 \<le> (of_char c :: nat) \<and> (of_char c :: nat) \<le> 70)"

definition isLowerHex :: "char \<Rightarrow> bool" where
  "isLowerHex c = (97 \<le> (of_char c :: nat) \<and> (of_char c :: nat) \<le> 102)"

definition toLowerCase :: "char \<Rightarrow> char" where
  "toLowerCase c =
     (if 65 \<le> (of_char c :: nat) \<and> (of_char c :: nat) \<le> 90 then char_of ((of_char c :: nat) + 32) else c)"

definition toUpperCase :: "char \<Rightarrow> char" where
  "toUpperCase c =
     (if 97 \<le> (of_char c :: nat) \<and> (of_char c :: nat) \<le> 122 then char_of ((of_char c :: nat) - 32) else c)"

definition getChecksumAddress :: "hash \<Rightarrow> string \<Rightarrow> string" where
  "getChecksumAddress K body =
     (let chars = map toLowerCase body;
          hashed = keccak256 K (toUtf8Bytes chars)
      in map (\<lambda>i. let h = unat (hashed ! (i div 2));
                       nibble = (if even i then h div 16 else h mod 16)
                   in if 8 \<le> nibble then toUpperCase (chars ! i) else chars ! i)
             [0..<40])"

text \<open>The ICAP form: its pattern, the IBAN checksum and the base-36 number.\<close>

definition isDigit :: "char \<Rightarrow> bool" where
  "isDigit c = (48 \<le> (of_char c :: nat) \<and> (of_char c :: nat) \<le> 57)"

definition isAlphaNumeric :: "char \<Rightarrow> bool" where
  "isAlphaNumeric c =
     (isDigit c \<or> (65 \<le> (of_char c :: nat) \<and> (of_char c :: nat) \<le> 90)
      \<or> (97 \<le> (of_char c :: nat) \<and> (of_char c :: nat) \<le> 122))"

definition isIcap :: "string \<Rightarrow> bool" where
  "isIcap s =
     (take 2 s = ''XE'' \<and> (length s = 34 \<or> length s = 35)
      \<and> list_all isDigit (take 2 (drop 2 s)) \<and> list_all isAlphaNumeric (drop 4 s))"

text \<open>\<open>ibanLookup\<close>: a digit stands for itself, the letters \<open>A\<close> to \<open>Z\<close> for 10 to 35.\<close>

definition ibanLookup :: "char \<Rightarrow> string" where
  "ibanLookup c = (if isDigit c then [c] else digits ((of_char c :: nat) - 55))"

text \<open>\<open>parseInt(block, 10)\<close> on a string of digits.\<close>

definition parseDecimal :: "string \<Rightarrow> nat" where
  "parseDecimal s = foldl (\<lambda>acc c. 10 * acc + ((of_char c :: nat) - 48)) 0 s"

text \<open>
  The loop of \<open>ibanChecksum\<close>: while the string has fifteen digits or more, its first
  fifteen are replaced by their value modulo 97.
\<close>

function ibanReduce :: "string \<Rightarrow> string" where
  "ibanReduce expanded =
     (if 15 \<le> length expanded
      then ibanReduce (digits (parseDecimal (take 15 expanded) mod 97) @ drop 15 expanded)
      else expanded)"
  by pat_completeness auto
termination
proof (relation "measure length")
  show "wf (measure length)" by simp
next
  fix expanded :: string
  assume long: "15 \<le> length expanded"
  have two: "length (digits n) \<le> 2" if "n < 100" for n
  proof (cases "n < 10")
    case True
    then show ?thesis by (simp add: digits.simps [of n])
  next
    case False
    from that have "n div 10 < 10" by simp
    then have "length (digits (n div 10)) = 1" by (simp add: digits.simps [of "n div 10"])
    with False show ?thesis by (simp add: digits.simps [of n])
  qed
  have "parseDecimal (take 15 expanded) mod 97 < 100"
    by (rule less_trans [OF mod_less_divisor]) simp_all
  from two [OF this] long
  show "(digits (parseDecimal (take 15 expanded) mod 97) @ drop 15 expanded, expanded)
          \<in> measure length"
    by simp
qed

declare ibanReduce.simps [simp del]

definition ibanChecksum :: "string \<Rightarrow> string" where
  "ibanChecksum address =
     (let upper = map toUpperCase address;
          rearranged = drop 4 upper @ take 2 upper @ ''00'';
          expanded = ibanReduce (concat (map ibanLookup rearranged));
          checksum = digits (98 - parseDecimal expanded mod 97)
      in if length checksum < 2 then ''0'' @ checksum else checksum)"

definition base36 :: "char \<Rightarrow> nat" where
  "base36 c =
     (let k = (of_char (toLowerCase c) :: nat) in if k \<le> 57 then k - 48 else k - 87)"

definition fromBase36 :: "string \<Rightarrow> nat" where
  "fromBase36 s = foldl (\<lambda>result c. result * 36 + base36 c) 0 s"

definition getAddress :: "hash \<Rightarrow> string \<Rightarrow> error + byte list" where
  "getAddress K s =
     (let body = (if take 2 s = ''0x'' then drop 2 s else s) in
      if length body = 40 \<and> list_all isHexDigit body
      then (if list_ex isUpperHex body \<and> list_ex isLowerHex body \<and> getChecksumAddress K body \<noteq> body
            then Inl BadAddressChecksum
            else (case parseHexPairs body of None \<Rightarrow> Inl InvalidAddress | Some bs \<Rightarrow> Inr bs))
      else if isIcap s
      then (if take 2 (drop 2 s) \<noteq> ibanChecksum s then Inl BadIcapChecksum
            else let bs = beBytes (fromBase36 (drop 4 s))
                 in Inr (replicate (20 - length bs) 0 @ bs))
      else Inl InvalidAddress)"

definition isAddress :: "hash \<Rightarrow> string \<Rightarrow> bool" where
  "isAddress K s = succeeds (getAddress K s)"

definition ZeroAddress :: string where
  "ZeroAddress = ''0x0000000000000000000000000000000000000000''"

subsection \<open>The ABI coder, for the static types the sources encode\<close>

datatype abiType = Bytes32T | AddressT | UintT nat | BoolT

text \<open>The JavaScript values handed to the coder.\<close>

datatype jsValue = JHex "byte list" | JStr string | JNum int | JBool bool

definition wordOfUint :: "nat \<Rightarrow> byte list" where
  "wordOfUint n = replicate (32 - length (beBytes n)) 0 @ beBytes n"

fun encodeValue :: "hash \<Rightarrow> abiType \<Rightarrow> jsValue \<Rightarrow> error + byte list" where
  "encodeValue K Bytes32T (JHex bs) = (if length bs = 32 then Inr bs else Inl IncorrectDataLength)"
| "encodeValue K AddressT (JStr s) =
     bindE (getAddress K s) (\<lambda>a.
       if length a \<le> 32 then Inr (replicate (32 - length a) 0 @ a) else Inl BufferOverrun)"
| "encodeValue K (UintT bits) (JNum v) =
     bindE (getBigInt v) (\<lambda>n.
       if n < 0 \<or> 2 ^ bits \<le> n then Inl ValueOutOfBounds else Inr (wordOfUint (nat n)))"
| "encodeValue K BoolT (JBool b) = Inr (wordOfUint (if b then 1 else 0))"
| "encodeValue K _ _ = Inl InvalidArgument"

text \<open>
  \<open>AbiCoder.defaultAbiCoder().encode(types, values)\<close>, the two arrays given as one list of
  pairs. All types are static, so the encoding is the concatenation of one 32-byte word
  per value.
\<close>

fun abiEncode :: "hash \<Rightarrow> (abiType \<times> jsValue) list \<Rightarrow> error + byte list" where
  "abiEncode K [] = Inr []"
| "abiEncode K ((t, v) # r) =
     bindE (encodeValue K t v) (\<lambda>w. bindE (abiEncode K r) (\<lambda>ws. Inr (w @ ws)))"

text \<open>
  Decoding is not part of the sources; it is defined here to state what a proof string
  decodes to. One word per type, nothing left over.
\<close>

datatype abiValue = BytesV "byte list" | AddressV "byte list" | UintV nat | BoolV bool

fun decodeValue :: "abiType \<Rightarrow> byte list \<Rightarrow> abiValue option" where
  "decodeValue Bytes32T w = Some (BytesV w)"
| "decodeValue AddressT w =
     (if take 12 w = replicate 12 0 then Some (AddressV (drop 12 w)) else None)"
| "decodeValue (UintT bits) w = (if fromBe w < 2 ^ bits then Some (UintV (fromBe w)) else None)"
| "decodeValue BoolT w =
     (if fromBe w = 0 then Some (BoolV False) else if fromBe w = 1 then Some (BoolV True) else None)"

fun abiDecode :: "abiType list \<Rightarrow> byte list \<Rightarrow> abiValue list option" where
  "abiDecode [] bs = (if bs = [] then Some [] else None)"
| "abiDecode (t # ts) bs =
     (if length bs < 32 then None
      else (case decodeValue t (take 32 bs) of None \<Rightarrow> None
            | Some v \<Rightarrow> (case abiDecode ts (drop 32 bs) of None \<Rightarrow> None | Some vs \<Rightarrow> Some (v # vs))))"

definition decodeHex :: "abiType list \<Rightarrow> string \<Rightarrow> abiValue list option" where
  "decodeHex ts s = (case getBytes s of Inl _ \<Rightarrow> None | Inr bs \<Rightarrow> abiDecode ts bs)"

section \<open>The key material cache (class PublicKeyStorage)\<close>

record storedPublicKey =
  publicKeyId :: string
  publicKey :: "byte list"

record storedPublicParams =
  publicParamsId :: string
  publicParams :: "byte list"

text \<open>The IndexedDB database \<open>fhevm\<close>: two object stores keyed by the ACL address.\<close>

record keyStore =
  publicKeyStore :: "string \<rightharpoonup> storedPublicKey"
  paramsStore :: "string \<rightharpoonup> storedPublicParams"

text \<open>
  How the database behaves during one \<open>get\<close>: whether \<open>openDB()\<close> resolves and the
  transaction can be made (if not, an exception is thrown inside the \<open>try\<close>), and for each
  of the two read requests whether it ends in \<open>onsuccess\<close> or in \<open>onerror\<close>.
\<close>

record dbAccess =
  dbOpens :: bool
  publicKeyRequestOk :: bool
  paramsRequestOk :: bool

definition workingDb :: dbAccess where
  "workingDb = \<lparr>dbOpens = True, publicKeyRequestOk = True, paramsRequestOk = True\<rparr>"

text \<open>A property of a JavaScript object: missing (\<open>undefined\<close>), \<open>null\<close>, or a value.\<close>

datatype 'a field = Absent | Null | Present 'a

text \<open>
  What \<open>get\<close> returns: \<open>publicKey\<close> is \<open>{id, data}\<close> and \<open>publicParams\<close> is
  \<open>{"2048": stored}\<close>.
\<close>

record cacheResult =
  resultPublicKey :: "(string \<times> byte list) field"
  resultPublicParams :: "storedPublicParams field"

text \<open>
  The \<open>try\<close> block of \<open>get\<close>. Each read promise resolves to the stored value
  (\<open>req.result?.value || null\<close>) or, from \<open>onerror\<close>, to \<open>null\<close>; a \<open>null\<close> key gives a result
  without the \<open>publicKey\<close> property, and so does a stored key whose id is the empty string.
\<close>

definition storageGetBody :: "dbAccess \<Rightarrow> keyStore \<Rightarrow> string \<Rightarrow> error + cacheResult" where
  "storageGetBody db st aclAddress =
     (if \<not> dbOpens db then Inl (External ''IndexedDB'')
      else
        let publicKeyResult =
              (if publicKeyRequestOk db then publicKeyStore st aclAddress else None);
            paramsResult = (if paramsRequestOk db then paramsStore st aclAddress else None)
        in Inr
          \<lparr>resultPublicKey =
             (case publicKeyResult of
                None \<Rightarrow> Absent
              | Some stored \<Rightarrow>
                  if publicKeyId stored \<noteq> [] then Present (publicKeyId stored, publicKey stored)
                  else Absent),
           resultPublicParams =
             (case paramsResult of None \<Rightarrow> Null | Some stored \<Rightarrow> Present stored)\<rparr>)"

definition storageGet :: "dbAccess \<Rightarrow> keyStore \<Rightarrow> string \<Rightarrow> cacheResult" where
  "storageGet db st aclAddress =
     (case storageGetBody db st aclAddress of
        Inr r \<Rightarrow> r
      | Inl error \<Rightarrow> \<lparr>resultPublicKey = Null, resultPublicParams = Null\<rparr>)"

text \<open>
  \<open>set\<close>: each record is written only when the argument is not \<open>null\<close>. \<open>dbOk\<close> says
  whether the database opens and the transaction completes; if not, the exception is caught
  and nothing is written.
\<close>

definition storageSet ::
  "bool \<Rightarrow> keyStore \<Rightarrow> string \<Rightarrow> storedPublicKey option \<Rightarrow> storedPublicParams option \<Rightarrow> keyStore" where
  "storageSet dbOk st aclAddress pk pp =
     (if \<not> dbOk then st
      else st\<lparr>publicKeyStore :=
                 (case pk of None \<Rightarrow> publicKeyStore st
                  | Some k \<Rightarrow> (publicKeyStore st)(aclAddress \<mapsto> k)),
              paramsStore :=
                 (case pp of None \<Rightarrow> paramsStore st
                  | Some p \<Rightarrow> (paramsStore st)(aclAddress \<mapsto> p))\<rparr>)"

definition emptyStore :: keyStore where
  "emptyStore = \<lparr>publicKeyStore = Map.empty, paramsStore = Map.empty\<rparr>"

section \<open>The encrypted input builder (class FHEVMClient)\<close>

text \<open>
  The declared type of the \<open>type\<close> parameter is \<open>'euint32' | 'ebool'\<close>;
  \<open>createEncryptedParams\<close> casts \<open>'euint64'\<close> to it, so that value reaches the functions
  below at run time as well.
\<close>

datatype fheType = Euint32 | Ebool | Euint64

record encryptedInput =
  handle :: string
  proof' :: string

text \<open>
  The engine instance is opaque (its type is \<open>any\<close>). One use of it by
  \<open>createEncryptedInput\<close> (open a session for a contract and a user, add one value,
  \<open>encrypt()\<close>) is one application of a function that either throws or returns \<open>handles\<close>
  and \<open>inputProof\<close>. A handle or proof it returns is a string, a byte array
  (\<open>Uint8Array\<close>), or missing.
\<close>

datatype engineArg = Add32 int | AddBool bool | AddNothing

datatype engineValue = StringValue string | BytesValue "byte list" | Missing

record engineOutput =
  handles :: "engineValue list"
  inputProof :: engineValue

type_synonym engine = "string \<Rightarrow> string \<Rightarrow> engineArg \<Rightarrow> error + engineOutput"

text \<open>What \<open>createFhevmInstance\<close> returns: the engine and the key material it offers.\<close>

record sdkInstance =
  instanceEngine :: engine
  getPublicKey :: "storedPublicKey option"
  getPublicParams :: "storedPublicParams option"

datatype provider = RpcUrl string | BrowserProvider

record fhevmClient =
  provider :: provider
  chainId :: int
  fhevmInstance :: "sdkInstance option"

text \<open>
  What one call reads from the outside world: the address of the wallet's signer (or the
  failure of \<open>getSigner\<close>), \<open>Math.floor(Date.now() / 1000)\<close> and
  \<open>Math.floor(Math.random() * 1000000)\<close>.
\<close>

record callEnv =
  signer :: "error + string"
  timestamp :: int
  nonce :: int

definition getUserAddress :: "provider \<Rightarrow> callEnv \<Rightarrow> error + string" where
  "getUserAddress p env = (case p of RpcUrl _ \<Rightarrow> Inr ZeroAddress | BrowserProvider \<Rightarrow> signer env)"

text \<open>The byte strings that are hashed into the fallback handles.\<close>

definition euint32HandleInput ::
  "byte list \<Rightarrow> byte list \<Rightarrow> byte list \<Rightarrow> byte list \<Rightarrow> byte list \<Rightarrow> byte list" where
  "euint32HandleInput contractBytes userBytes valueBytes timestampBytes nonceBytes =
     concat [toUtf8Bytes ''FHEVM_EUINT32'', contractBytes, userBytes, valueBytes,
             timestampBytes, nonceBytes]"

definition eboolHandleInput ::
  "byte list \<Rightarrow> byte list \<Rightarrow> byte list \<Rightarrow> byte list \<Rightarrow> byte list" where
  "eboolHandleInput contractBytes userBytes valueBytes timestampBytes =
     concat [toUtf8Bytes ''FHEVM_EBOOL'', contractBytes, userBytes, valueBytes, timestampBytes]"

text \<open>The \<open>try\<close> block of \<open>createCompatibleEncryptedInput\<close>: the deterministic fallback.\<close>

definition deterministicFallback ::
  "hash \<Rightarrow> fhevmClient \<Rightarrow> callEnv \<Rightarrow> string \<Rightarrow> int \<Rightarrow> fheType \<Rightarrow> error + encryptedInput" where
  "deterministicFallback K c env contractAddress value ty =
     bindE (getUserAddress (provider c) env) (\<lambda>userAddress.
       (if ty = Euint32 then
            bindE (bindE (toBeHex value) (\<lambda>h. zeroPadValue h 32)) (\<lambda>valueBytes.
            bindE (getBytes contractAddress) (\<lambda>contractBytes.
            bindE (getBytes userAddress) (\<lambda>userBytes.
            bindE (bindE (toBeHex (timestamp env)) (\<lambda>h. zeroPadValue h 8)) (\<lambda>timestampBytes.
            bindE (bindE (toBeHex (nonce env)) (\<lambda>h. zeroPadValue h 8)) (\<lambda>nonceBytes.
              let handleData = keccak256 K
                    (euint32HandleInput contractBytes userBytes valueBytes timestampBytes nonceBytes)
              in bindE (abiEncode K
                    [(Bytes32T, JHex handleData),
                     (AddressT, JStr contractAddress),
                     (AddressT, JStr userAddress),
                     (UintT 32, JNum value),
                     (UintT 256, JNum (timestamp env)),
                     (Bytes32T, JHex (keccak256 K (toUtf8Bytes
                        (''proof_'' @ numToString value @ ''_'' @ numToString (timestamp env)
                          @ ''_'' @ numToString (nonce env)))))])
                   (\<lambda>proofData.
                      Inr \<lparr>handle = hexlify handleData, proof' = hexlify proofData\<rparr>))))))
        else
            (let boolValue = (if value \<noteq> 0 then 1 else 0 :: int) in
            bindE (bindE (toBeHex boolValue) (\<lambda>h. zeroPadValue h 32)) (\<lambda>valueBytes.
            bindE (getBytes contractAddress) (\<lambda>contractBytes.
            bindE (getBytes userAddress) (\<lambda>userBytes.
            bindE (bindE (toBeHex (timestamp env)) (\<lambda>h. zeroPadValue h 8)) (\<lambda>timestampBytes.
              let handleData = keccak256 K
                    (eboolHandleInput contractBytes userBytes valueBytes timestampBytes)
              in bindE (abiEncode K
                    [(Bytes32T, JHex handleData),
                     (AddressT, JStr contractAddress),
                     (AddressT, JStr userAddress),
                     (BoolT, JBool (value \<noteq> 0)),
                     (UintT 256, JNum (timestamp env)),
                     (Bytes32T, JHex (keccak256 K (toUtf8Bytes
                        (''bool_proof_'' @ numToString boolValue @ ''_''
                          @ numToString (timestamp env)))))])
                   (\<lambda>proofData.
                      Inr \<lparr>handle = hexlify handleData, proof' = hexlify proofData\<rparr>))))))))"

text \<open>The \<open>catch\<close> block of \<open>createCompatibleEncryptedInput\<close>: the minimal fallback.\<close>

definition minimalFallback :: "hash \<Rightarrow> string \<Rightarrow> int \<Rightarrow> error + encryptedInput" where
  "minimalFallback K contractAddress value =
     bindE (bindE (toBeHex value) (\<lambda>h. zeroPadValue h 32)) (\<lambda>simpleHandle.
     bindE (abiEncode K [(UintT 256, JNum value), (AddressT, JStr contractAddress)]) (\<lambda>simpleProof.
       Inr \<lparr>handle = hexlify simpleHandle, proof' = hexlify simpleProof\<rparr>))"

definition createCompatibleEncryptedInput ::
  "hash \<Rightarrow> fhevmClient \<Rightarrow> callEnv \<Rightarrow> string \<Rightarrow> int \<Rightarrow> fheType \<Rightarrow> error + encryptedInput" where
  "createCompatibleEncryptedInput K c env contractAddress value ty =
     catchE (deterministicFallback K c env contractAddress value ty)
            (\<lambda>error. minimalFallback K contractAddress value)"

text \<open>
  What the sources do with the first handle and the proof once \<open>encrypt()\<close> has returned:
  the logging calls \<open>handle?.substring(0, 20)\<close> and \<open>proof?.substring(0, 20)\<close>, which throws
  a \<open>TypeError\<close> on a byte array; then a missing or empty handle or proof is refused; two
  non-empty strings are returned as they are.
\<close>

definition checkEncrypted :: "engineValue \<Rightarrow> engineValue \<Rightarrow> error + encryptedInput" where
  "checkEncrypted h p =
     (case h of
        BytesValue _ \<Rightarrow> Inl TypeError
      | Missing \<Rightarrow> (case p of BytesValue _ \<Rightarrow> Inl TypeError | _ \<Rightarrow> Inl MissingHandleOrProof)
      | StringValue hs \<Rightarrow>
          (case p of
             BytesValue _ \<Rightarrow> Inl TypeError
           | Missing \<Rightarrow> Inl MissingHandleOrProof
           | StringValue ps \<Rightarrow>
               if hs = [] \<or> ps = [] then Inl MissingHandleOrProof
               else Inr \<lparr>handle = hs, proof' = ps\<rparr>))"

text \<open>
  The branch of \<open>createEncryptedInput\<close> that uses the engine. Resolving the user address
  happens before the inner \<open>try\<close>; everything the engine does is inside it, and whatever
  is thrown there is rethrown as "fhevmjs SDK failed".
\<close>

definition sdkPath ::
  "fhevmClient \<Rightarrow> engine \<Rightarrow> callEnv \<Rightarrow> string \<Rightarrow> int \<Rightarrow> fheType \<Rightarrow> error + encryptedInput" where
  "sdkPath c eng env contractAddress value ty =
     bindE (getUserAddress (provider c) env) (\<lambda>userAddress.
       catchE
         (bindE (eng contractAddress userAddress
                   (case ty of Euint32 \<Rightarrow> Add32 value | Ebool \<Rightarrow> AddBool (value \<noteq> 0)
                    | Euint64 \<Rightarrow> AddNothing))
            (\<lambda>encrypted.
               checkEncrypted
                 (case handles encrypted of [] \<Rightarrow> Missing | h # _ \<Rightarrow> h)
                 (inputProof encrypted)))
         (\<lambda>sdkError. Inl (SdkFailed sdkError)))"

text \<open>
  \<open>createEncryptedInput\<close>. The first environment is read by the first attempt (engine
  or fallback), the second by the fallback call in the outer \<open>catch\<close>.
\<close>

definition createEncryptedInput ::
  "hash \<Rightarrow> fhevmClient \<Rightarrow> callEnv \<Rightarrow> callEnv \<Rightarrow> string \<Rightarrow> int \<Rightarrow> fheType
     \<Rightarrow> error + encryptedInput" where
  "createEncryptedInput K c env env' contractAddress value ty =
     catchE
       (case fhevmInstance c of
          Some inst \<Rightarrow>
            if chainId c = 11155111
            then sdkPath c (instanceEngine inst) env contractAddress value ty
            else createCompatibleEncryptedInput K c env contractAddress value ty
        | None \<Rightarrow> createCompatibleEncryptedInput K c env contractAddress value ty)
       (\<lambda>error. createCompatibleEncryptedInput K c env' contractAddress value ty)"

definition createEncryptedBoolInput ::
  "hash \<Rightarrow> fhevmClient \<Rightarrow> callEnv \<Rightarrow> callEnv \<Rightarrow> string \<Rightarrow> bool \<Rightarrow> error + encryptedInput" where
  "createEncryptedBoolInput K c env env' contractAddress value =
     createEncryptedInput K c env env' contractAddress (if value then 1 else 0) Ebool"

definition isReady :: "fhevmClient \<Rightarrow> bool" where
  "isReady c = (chainId c = 11155111 \<or> chainId c = 31337)"

definition isFHEVMSupported :: "int \<Rightarrow> bool" where
  "isFHEVMSupported n = (n = 11155111 \<or> n = 31337)"

section \<open>Creating the engine instance (createFhevmInstance)\<close>

text \<open>
  The places where \<open>throwIfAborted()\<close> is called, in source order: in the mock branch after
  \<open>notify('creating')\<close>; before the SDK is looked at; after \<open>loader.load()\<close>; after
  \<open>initSDK()\<close>; after the cache has been read; after the cache has been written.
\<close>

datatype checkpoint =
  InMockBranch | BeforeSdk | AfterLoad | AfterInitSDK | AfterCacheGet | AfterCacheSet

text \<open>
  Everything \<open>createFhevmInstance\<close> reads from outside: the chain id the provider reports,
  the state of the abort signal at each check, the state of \<open>window.relayerSDK\<close>, the
  outcome of loading and initialising the SDK, the SDK's ACL address, the outcome of
  \<open>relayerSDK.createInstance(config)\<close> (which may depend on the cached material in the
  config), how the database behaves when the cache is read, whether the cache write goes
  through, and the clock readings the mock engine takes.
\<close>

record sdkWorld =
  chainIdResult :: "error + int"
  aborted :: "checkpoint \<Rightarrow> bool"
  sdkValid :: bool
  loadResult :: "error + unit"
  sdkInitialized :: bool
  initSDKResult :: "error + unit"
  aclContractAddress :: string
  createInstanceResult :: "cacheResult \<Rightarrow> error + sdkInstance"
  dbRead :: dbAccess
  dbWriteOk :: bool
  mockClock :: int

definition throwIfAborted :: "sdkWorld \<Rightarrow> checkpoint \<Rightarrow> error + unit" where
  "throwIfAborted w p = (if aborted w p then Inl Cancelled else Inr ())"

text \<open>
  The mock instance of the development branch. Its proof is the ABI encoding of
  \<open>('MOCK_PROOF', contractAddress, userAddress, Date.now())\<close> as
  \<open>(string, address, address, uint256)\<close>: four head words (the first the offset 128 of the
  string) and the string's length and padded bytes.
\<close>

definition mockEngine :: "hash \<Rightarrow> int \<Rightarrow> engine" where
  "mockEngine K clock contractAddress userAddress arg =
     bindE (getBytes contractAddress) (\<lambda>contractBytes.
     bindE (getBytes userAddress) (\<lambda>userBytes.
     bindE (bindE (toBeHex clock) (\<lambda>h. zeroPadValue h 8)) (\<lambda>clockBytes.
     bindE (encodeValue K AddressT (JStr contractAddress)) (\<lambda>contractWord.
     bindE (encodeValue K AddressT (JStr userAddress)) (\<lambda>userWord.
     bindE (encodeValue K (UintT 256) (JNum clock)) (\<lambda>clockWord.
       Inr \<lparr>handles =
              [StringValue (hexlify (keccak256 K
                 (concat [toUtf8Bytes ''MOCK_HANDLE'', contractBytes, userBytes, clockBytes])))],
            inputProof =
              StringValue
                (hexlify (wordOfUint 128 @ contractWord @ userWord @ clockWord @ wordOfUint 10
                          @ toUtf8Bytes ''MOCK_PROOF'' @ replicate 22 0))\<rparr>))))))"

definition mockInstance :: "hash \<Rightarrow> int \<Rightarrow> sdkInstance" where
  "mockInstance K clock =
     \<lparr>instanceEngine = mockEngine K clock,
      getPublicKey = Some \<lparr>publicKeyId = ''mock-dev'', publicKey = replicate 32 0\<rparr>,
      getPublicParams = Some \<lparr>publicParamsId = ''mock-params'', publicParams = replicate 2048 0\<rparr>\<rparr>"

text \<open>
  The part of \<open>createFhevmInstance\<close> for a real network, from the first
  \<open>throwIfAborted()\<close> on. It returns the outcome and the cache as it is left.
\<close>

definition createRealInstance ::
  "hash \<Rightarrow> sdkWorld \<Rightarrow> keyStore \<Rightarrow> (error + sdkInstance) \<times> keyStore" where
  "createRealInstance K w st =
     (case bindE (throwIfAborted w BeforeSdk) (\<lambda>_.
           bindE (if \<not> sdkValid w
                  then bindE (loadResult w) (\<lambda>_. throwIfAborted w AfterLoad)
                  else Inr ()) (\<lambda>_.
           bindE (if \<not> sdkInitialized w
                  then bindE (initSDKResult w) (\<lambda>_. throwIfAborted w AfterInitSDK)
                  else Inr ()) (\<lambda>_.
           bindE (if \<not> isAddress K (aclContractAddress w)
                  then Inl (InvalidAcl (aclContractAddress w))
                  else Inr ()) (\<lambda>_.
           let cached = storageGet (dbRead w) st (aclContractAddress w) in
           bindE (throwIfAborted w AfterCacheGet) (\<lambda>_. Inr cached))))) of
        Inl e \<Rightarrow> (Inl e, st)
      | Inr cached \<Rightarrow>
          (case createInstanceResult w cached of
             Inl e \<Rightarrow> (Inl e, st)
           | Inr instance \<Rightarrow>
               let st' = storageSet (dbWriteOk w) st (aclContractAddress w)
                           (getPublicKey instance) (getPublicParams instance)
               in (case throwIfAborted w AfterCacheSet of
                     Inl e \<Rightarrow> (Inl e, st')
                   | Inr _ \<Rightarrow> (Inr instance, st'))))"

text \<open>
  \<open>createFhevmInstance\<close>. \<open>mockChains\<close> is the caller's table; the built-in entry for 31337
  is overridden by it, as the object spread does.
\<close>

definition createFhevmInstance ::
  "hash \<Rightarrow> provider \<Rightarrow> (int \<times> string) list \<Rightarrow> sdkWorld \<Rightarrow> keyStore
     \<Rightarrow> (error + sdkInstance) \<times> keyStore" where
  "createFhevmInstance K providerOrUrl mockChains w st =
     (case chainIdResult w of
        Inl e \<Rightarrow> (Inl e, st)
      | Inr networkId \<Rightarrow>
          let table = mockChains @ [(31337, ''http://localhost:8545'')];
              isMock = (map_of table networkId \<noteq> None);
              rpcUrl = (case providerOrUrl of
                          RpcUrl url \<Rightarrow> url
                        | BrowserProvider \<Rightarrow>
                            (case map_of table networkId of None \<Rightarrow> [] | Some url \<Rightarrow> url))
          in if isMock \<and> rpcUrl \<noteq> []
             then (case throwIfAborted w InMockBranch of
                     Inl e \<Rightarrow> (Inl e, st)
                   | Inr _ \<Rightarrow> (Inr (mockInstance K (mockClock w)), st))
             else createRealInstance K w st)"

text \<open>
  \<open>FHEVMClient.initialize\<close>: the signal it passes is that of a fresh \<open>AbortController\<close>,
  which nothing aborts; whatever \<open>createFhevmInstance\<close> throws is caught and the instance
  is set to \<open>null\<close>.
\<close>

definition initialize :: "hash \<Rightarrow> fhevmClient \<Rightarrow> sdkWorld \<Rightarrow> keyStore \<Rightarrow> fhevmClient \<times> keyStore" where
  "initialize K c w st =
     (case createFhevmInstance K (provider c) [(31337, ''http://localhost:8545'')]
             (w\<lparr>aborted := (\<lambda>p. False)\<rparr>) st of
        (Inr instance, st') \<Rightarrow> (c\<lparr>fhevmInstance := Some instance\<rparr>, st')
      | (Inl error, st') \<Rightarrow> (c\<lparr>fhevmInstance := None\<rparr>, st'))"

text \<open>
  \<open>createFHEVMClient\<close>: \<open>clientChainId\<close> is the outcome of its own \<open>getChainId\<close> call,
  which comes before the one inside \<open>createFhevmInstance\<close>.
\<close>

definition createFHEVMClient ::
  "hash \<Rightarrow> provider \<Rightarrow> error + int \<Rightarrow> sdkWorld \<Rightarrow> keyStore \<Rightarrow> (error + fhevmClient) \<times> keyStore" where
  "createFHEVMClient K providerOrUrl clientChainId w st =
     (case clientChainId of
        Inl e \<Rightarrow> (Inl e, st)
      | Inr n \<Rightarrow>
          (case initialize K \<lparr>provider = providerOrUrl, chainId = n, fhevmInstance = None\<rparr> w st of
             (client, st') \<Rightarrow> (Inr client, st')))"

section \<open>The meta-transaction manager (class FHEVMMetaManager)\<close>

datatype txStatus = Pending | Processing | Completed | Failed

text \<open>A parameter value is a \<open>number | boolean\<close>.\<close>

datatype paramValue = NumberValue int | BooleanValue bool

definition numberOf :: "paramValue \<Rightarrow> int" where
  "numberOf x = (case x of NumberValue n \<Rightarrow> n | BooleanValue b \<Rightarrow> (if b then 1 else 0))"

definition booleanOf :: "paramValue \<Rightarrow> bool" where
  "booleanOf x = (case x of NumberValue n \<Rightarrow> n \<noteq> 0 | BooleanValue b \<Rightarrow> b)"

record plainParameter =
  plainName :: string
  plainValue :: paramValue
  plainType :: fheType

record encryptedParameter =
  paramName :: string
  paramType :: fheType
  paramHandle :: string
  paramProof :: string
  originalValue :: paramValue

record metaTransaction =
  txId :: string
  txContractAddress :: string
  functionName :: string
  encryptedParams :: "encryptedParameter list"
  txUserAddress :: string
  txTimestamp :: int
  txChainId :: int
  status :: txStatus
  txHash :: "string option"
  blockNumber :: "int option"
  gasUsed :: "string option"

record metaManager =
  managerClient :: "fhevmClient option"
  managerChainId :: int
  managerContract :: string
  isInitialized :: bool



definition managerIsReady :: "metaManager \<Rightarrow> bool" where
  "managerIsReady m =
     (isInitialized m \<and> (case managerClient m of None \<Rightarrow> False | Some client \<Rightarrow> isReady client))"

text \<open>
  \<open>FHEVMMetaManager.initialize\<close> and \<open>createFHEVMMetaManager\<close>. The manager's provider is
  always a \<open>BrowserProvider\<close>.
\<close>

definition managerInitialize ::
  "hash \<Rightarrow> metaManager \<Rightarrow> error + int \<Rightarrow> sdkWorld \<Rightarrow> keyStore \<Rightarrow> (error + metaManager) \<times> keyStore" where
  "managerInitialize K m clientChainId w st =
     (case createFHEVMClient K BrowserProvider clientChainId w st of
        (Inl e, st') \<Rightarrow> (Inl (ManagerInitFailed e), st')
      | (Inr client, st') \<Rightarrow> (Inr (m\<lparr>managerClient := Some client, isInitialized := True\<rparr>), st'))"


text \<open>
  \<open>createEncryptedParams\<close>: the parameters in order, each with the two environments its
  \<open>createEncryptedInput\<close> call may read; the first failure ends the loop.
\<close>

fun encryptParams ::
  "hash \<Rightarrow> fhevmClient \<Rightarrow> string \<Rightarrow> (plainParameter \<times> callEnv \<times> callEnv) list
     \<Rightarrow> error + encryptedParameter list" where
  "encryptParams K client contractAddress [] = Inr []"
| "encryptParams K client contractAddress ((param, env, env') # rest) =
     (case (if plainType param = Ebool
            then createEncryptedBoolInput K client env env' contractAddress
                   (booleanOf (plainValue param))
            else createEncryptedInput K client env env' contractAddress
                   (numberOf (plainValue param)) (plainType param)) of
        Inl e \<Rightarrow> Inl (EncryptParameterFailed (plainName param) e)
      | Inr encryptedInput \<Rightarrow>
          bindE (encryptParams K client contractAddress rest) (\<lambda>others.
            Inr (\<lparr>paramName = plainName param, paramType = plainType param,
                  paramHandle = handle encryptedInput, paramProof = proof' encryptedInput,
                  originalValue = plainValue param\<rparr> # others)))"

definition createEncryptedParams ::
  "hash \<Rightarrow> metaManager \<Rightarrow> (plainParameter \<times> callEnv \<times> callEnv) list
     \<Rightarrow> error + encryptedParameter list" where
  "createEncryptedParams K m params =
     (case managerClient m of
        None \<Rightarrow> Inl ManagerNotInitialized
      | Some client \<Rightarrow>
          if \<not> isInitialized m then Inl ManagerNotInitialized
          else encryptParams K client (managerContract m) params)"

text \<open>
  The chain as \<open>executeMetaTransaction\<close> and the status queries see it: the signer's
  address (first \<open>getSigner\<close>), the second \<open>getSigner\<close> for the contract, whether the ABI
  gives the contract a member of that name, the outcome of sending the call (a transaction
  hash), the receipt with which the transaction is mined (or the failure of waiting for
  it), the outcome of \<open>getTransactionReceipt\<close> and of \<open>getBlockNumber\<close>, and the values the
  transaction id and timestamp are made from. The \<open>status\<close> of a receipt is 1, 0 or \<open>null\<close>.
\<close>

record receipt =
  receiptStatus :: "int option"
  receiptBlockNumber :: int
  receiptGasUsed :: string

record chainWorld =
  signerAddress :: "error + string"
  contractSigner :: "error + unit"
  hasFunction :: "string \<Rightarrow> bool"
  sendResult :: "string \<Rightarrow> string list \<Rightarrow> error + string"
  minedReceipt :: "string \<Rightarrow> error + receipt"
  receiptOf :: "string \<Rightarrow> error + receipt option"
  blockNumberResult :: "error + int"
  freshTransactionId :: string
  clockMs :: int

text \<open>
  \<open>tx.wait()\<close> of ethers, with its default of one confirmation: it resolves to the receipt
  of the mined transaction, unless the receipt's status is 0; then it throws
  "transaction execution reverted".
\<close>

definition wait :: "chainWorld \<Rightarrow> string \<Rightarrow> error + receipt" where
  "wait w hash =
     bindE (minedReceipt w hash) (\<lambda>rc.
       if receiptStatus rc = Some 0 then Inl CallException else Inr rc)"

text \<open>
  What one run of \<open>executeMetaTransaction\<close> does: the provider and contract calls it makes,
  in order; the successive states of its \<open>metaTx\<close> record, one per assignment to it; and the
  value it resolves or rejects with.
\<close>

datatype event = GetSigner | SendTransaction | WaitForReceipt

record execution =
  events :: "event list"
  snapshots :: "metaTransaction list"
  outcome :: "error + metaTransaction"

text \<open>
  The \<open>try\<close> block. Every parameter type is \<open>ebool\<close> or starts with \<open>euint\<close>, so every
  parameter contributes its handle and its proof to the call.
\<close>

definition submitTransaction :: "chainWorld \<Rightarrow> metaTransaction \<Rightarrow> execution" where
  "submitTransaction w metaTx =
     (case contractSigner w of
        Inl e \<Rightarrow> \<lparr>events = [GetSigner], snapshots = [metaTx], outcome = Inl e\<rparr>
      | Inr _ \<Rightarrow>
          if \<not> hasFunction w (functionName metaTx)
          then \<lparr>events = [GetSigner], snapshots = [metaTx],
                outcome = Inl (FunctionNotFound (functionName metaTx))\<rparr>
          else
            let txParams = concat (map (\<lambda>p. [paramHandle p, paramProof p]) (encryptedParams metaTx));
                processing = metaTx\<lparr>status := Processing\<rparr>
            in (case sendResult w (functionName metaTx) txParams of
                  Inl e \<Rightarrow>
                    \<lparr>events = [GetSigner, SendTransaction], snapshots = [metaTx, processing],
                     outcome = Inl e\<rparr>
                | Inr hash \<Rightarrow>
                    let sent = processing\<lparr>txHash := Some hash\<rparr> in
                    (case wait w hash of
                       Inl e \<Rightarrow>
                         \<lparr>events = [GetSigner, SendTransaction, WaitForReceipt],
                          snapshots = [metaTx, processing, sent], outcome = Inl e\<rparr>
                     | Inr rc \<Rightarrow>
                         let final = sent
                               \<lparr>status := (if receiptStatus rc = Some 1 then Completed else Failed),
                                blockNumber := Some (receiptBlockNumber rc),
                                gasUsed := Some (receiptGasUsed rc)\<rparr>
                         in \<lparr>events = [GetSigner, SendTransaction, WaitForReceipt],
                             snapshots = [metaTx, processing, sent, final],
                             outcome = Inr final\<rparr>)))"

definition executeMetaTransaction ::
  "metaManager \<Rightarrow> chainWorld \<Rightarrow> string \<Rightarrow> encryptedParameter list \<Rightarrow> execution" where
  "executeMetaTransaction m w name params =
     (if \<not> isInitialized m \<or> managerClient m = None
      then \<lparr>events = [], snapshots = [], outcome = Inl ManagerNotInitialized\<rparr>
      else (case signerAddress w of
              Inl e \<Rightarrow> \<lparr>events = [GetSigner], snapshots = [], outcome = Inl e\<rparr>
            | Inr userAddress \<Rightarrow>
                let metaTx =
                      \<lparr>txId = freshTransactionId w,
                       txContractAddress = managerContract m,
                       functionName = name,
                       encryptedParams = params,
                       txUserAddress = userAddress,
                       txTimestamp = clockMs w,
                       txChainId = managerChainId m,
                       status = Pending,
                       txHash = None, blockNumber = None, gasUsed = None\<rparr>;
                    run = submitTransaction w metaTx
                in (case outcome run of
                      Inr tx \<Rightarrow> run\<lparr>events := GetSigner # events run\<rparr>
                    | Inl e \<Rightarrow>
                        \<lparr>events = GetSigner # events run,
                         snapshots = snapshots run @ [(last (snapshots run))\<lparr>status := Failed\<rparr>],
                         outcome = Inl (MetaTransactionFailed e)\<rparr>)))"

record transactionStatus =
  confirmed :: bool
  statusBlockNumber :: "int option"
  confirmations :: int
  statusGasUsed :: "string option"

definition getTransactionStatus :: "chainWorld \<Rightarrow> string \<Rightarrow> error + transactionStatus" where
  "getTransactionStatus w hash =
     bindE (receiptOf w hash) (\<lambda>found.
     bindE (blockNumberResult w) (\<lambda>currentBlock.
       (case found of
          None \<Rightarrow>
            Inr \<lparr>confirmed = False, statusBlockNumber = None, confirmations = 0,
                 statusGasUsed = None\<rparr>
        | Some rc \<Rightarrow>
            Inr \<lparr>confirmed = (receiptStatus rc = Some 1),
                 statusBlockNumber = Some (receiptBlockNumber rc),
                 confirmations = currentBlock - receiptBlockNumber rc,
                 statusGasUsed = Some (receiptGasUsed rc)\<rparr>)))"

section \<open>The React hook (useFHEVMMetaTransactions)\<close>

record hookState =
  hookInitialized :: bool
  isLoading :: bool
  hookError :: "error option"
  transactions :: "metaTransaction list"
  currentTransaction :: "metaTransaction option"

text \<open>The argument of \<open>useState\<close>: the state of the first render.\<close>

definition initialState :: hookState where
  "initialState =
     \<lparr>hookInitialized = False, isLoading = False, hookError = None,
      transactions = [], currentTransaction = None\<rparr>"

text \<open>The hook: its state and its two refs.\<close>

record hook =
  hookState :: hookState
  metaManagerRef :: "metaManager option"
  chainIdRef :: "int option"

definition newHook :: hook where
  "newHook = \<lparr>hookState = initialState, metaManagerRef = None, chainIdRef = None\<rparr>"


text \<open>
  \<open>executeMetaTransaction\<close> of the hook: the value it resolves or rejects with, the hook
  afterwards, and the provider and contract calls made. The callback is memoised with the
  dependency list \<open>[updateState]\<close>, and \<open>updateState\<close> never changes, so the \<open>state\<close> its body
  reads in \<open>[metaTx, ...state.transactions]\<close> is that of the first render whatever the
  state has become; the other fields are merged into the current state by \<open>updateState\<close>.
\<close>

definition hookExecuteMetaTransaction ::
  "hash \<Rightarrow> hook \<Rightarrow> chainWorld \<Rightarrow> string
     \<Rightarrow> (plainParameter \<times> callEnv \<times> callEnv) list
     \<Rightarrow> (error + metaTransaction) \<times> hook \<times> event list" where
  "hookExecuteMetaTransaction K h w name params =
     (case metaManagerRef h of
        None \<Rightarrow> (Inl HookNotInitialized, h, [])
      | Some manager \<Rightarrow>
          let failed = (\<lambda>e. h\<lparr>hookState := (hookState h)
                           \<lparr>isLoading := False, hookError := Some (TransactionFailed e)\<rparr>\<rparr>)
          in (case createEncryptedParams K manager params of
                Inl e \<Rightarrow> (Inl e, failed e, [])
              | Inr encrypted \<Rightarrow>
                  let run = executeMetaTransaction manager w name encrypted in
                  (case outcome run of
                     Inl e \<Rightarrow> (Inl e, failed e, events run)
                   | Inr metaTx \<Rightarrow>
                       (Inr metaTx,
                        h\<lparr>hookState := (hookState h)
                            \<lparr>isLoading := False, hookError := None,
                             transactions := metaTx # transactions initialState,
                             currentTransaction := Some metaTx\<rparr>\<rparr>,
                        events run))))"

text \<open>
  The status polling effect: one pass of \<open>updateTransactionStatuses\<close> over the history.
  \<open>getTransactionStatus\<close> of the hook throws when there is no manager; the loop catches
  whatever it throws.
\<close>

definition hookGetTransactionStatus :: "hook \<Rightarrow> chainWorld \<Rightarrow> string \<Rightarrow> error + transactionStatus" where
  "hookGetTransactionStatus h w hash =
     (case metaManagerRef h of
        None \<Rightarrow> Inl HookNotInitialized
      | Some manager \<Rightarrow> getTransactionStatus w hash)"

definition refreshTransaction :: "hook \<Rightarrow> chainWorld \<Rightarrow> metaTransaction \<Rightarrow> metaTransaction" where
  "refreshTransaction h w tx =
     (if status tx = Completed \<or> status tx = Failed then tx
      else (case txHash tx of
              None \<Rightarrow> tx
            | Some hash \<Rightarrow>
                if hash = [] then tx
                else (case hookGetTransactionStatus h w hash of
                        Inl e \<Rightarrow> tx
                      | Inr st \<Rightarrow> tx\<lparr>status := (if confirmed st then Completed else status tx)\<rparr>)))"

definition updateTransactionStatuses :: "hook \<Rightarrow> chainWorld \<Rightarrow> hook" where
  "updateTransactionStatuses h w =
     (if \<not> hookInitialized (hookState h) \<or> transactions (hookState h) = [] then h
      else h\<lparr>hookState := (hookState h)
               \<lparr>transactions := map (refreshTransaction h w) (transactions (hookState h))\<rparr>\<rparr>)"

section \<open>Notions used in the statements\<close>

text \<open>A string that is \<open>0x\<close> and the hex digits of exactly 32 bytes.\<close>

definition isBytes32 :: "string \<Rightarrow> bool" where
  "isBytes32 s =
     (take 2 s = ''0x'' \<and> (case getBytes s of Inl _ \<Rightarrow> False | Inr bs \<Rightarrow> length bs = 32))"

text \<open>A string that is hex data of at least one byte.\<close>

definition isNonEmptyData :: "string \<Rightarrow> bool" where
  "isNonEmptyData s = (case getBytes s of Inl _ \<Rightarrow> False | Inr bs \<Rightarrow> bs \<noteq> [])"

text \<open>A result with a handle of exactly 32 bytes and a proof that is not empty.\<close>

definition wellFormed :: "encryptedInput \<Rightarrow> bool" where
  "wellFormed r =
     (length (handle r) = 66 \<and> isBytes32 (handle r) \<and> isNonEmptyData (proof' r))"

text \<open>The order of the life cycle: \<open>pending\<close>, then \<open>processing\<close>, then one of the two ends.\<close>

fun rank :: "txStatus \<Rightarrow> nat" where
  "rank Pending = 0"
| "rank Processing = 1"
| "rank Completed = 2"
| "rank Failed = 2"

definition advances :: "txStatus \<Rightarrow> txStatus \<Rightarrow> bool" where
  "advances s s' = (s = s' \<or> rank s < rank s')"

subsection \<open>Concrete values for the examples\<close>

definition addrA :: string where
  "addrA = ''0xAAAAAAAAAAAAAAAAAAAAAAAAAAAAAAAAAAAAAAAA''"

definition addrB :: string where
  "addrB = ''0xBBBBBBBBBBBBBBBBBBBBBBBBBBBBBBBBBBBBBBBB''"


definition exampleEnv :: callEnv where
  "exampleEnv = \<lparr>signer = Inr addrB, timestamp = 1700000000, nonce = 424242\<rparr>"

definition noWalletEnv :: callEnv where
  "noWalletEnv =
     \<lparr>signer = Inl (External ''no accounts''), timestamp = 1700000000, nonce = 424242\<rparr>"

text \<open>
  Four engines: one answers with a 32-byte handle and a one-byte proof as strings, one
  with byte arrays, one throws, one answers with a one-byte handle and a zero-byte proof
  as strings.
\<close>

definition stubEngine :: engine where
  "stubEngine contractAddress userAddress arg =
     Inr \<lparr>handles = [StringValue (hexlify (replicate 32 1))], inputProof = StringValue ''0x01''\<rparr>"

definition bytesEngine :: engine where
  "bytesEngine contractAddress userAddress arg =
     Inr \<lparr>handles = [BytesValue (replicate 32 1)], inputProof = BytesValue [1]\<rparr>"

definition failingEngine :: engine where
  "failingEngine contractAddress userAddress arg = Inl (External ''relayer unreachable'')"

definition shortEngine :: engine where
  "shortEngine contractAddress userAddress arg =
     Inr \<lparr>handles = [StringValue ''0x01''], inputProof = StringValue ''0x''\<rparr>"

definition stubKey :: storedPublicKey where
  "stubKey = \<lparr>publicKeyId = ''key-1'', publicKey = [1, 2, 3]\<rparr>"

text \<open>A key whose id is the empty string, and a database whose read requests fail.\<close>

definition unnamedKey :: storedPublicKey where
  "unnamedKey = \<lparr>publicKeyId = [], publicKey = [1, 2, 3]\<rparr>"

definition failingReads :: dbAccess where
  "failingReads = \<lparr>dbOpens = True, publicKeyRequestOk = False, paramsRequestOk = False\<rparr>"

definition stubParams :: storedPublicParams where
  "stubParams = \<lparr>publicParamsId = ''params-1'', publicParams = [4, 5, 6]\<rparr>"

definition stubInstance :: sdkInstance where
  "stubInstance =
     \<lparr>instanceEngine = stubEngine, getPublicKey = Some stubKey, getPublicParams = Some stubParams\<rparr>"

definition sepoliaClient :: fhevmClient where
  "sepoliaClient =
     \<lparr>provider = BrowserProvider, chainId = 11155111, fhevmInstance = Some stubInstance\<rparr>"

definition shortClient :: fhevmClient where
  "shortClient =
     \<lparr>provider = BrowserProvider, chainId = 11155111,
      fhevmInstance = Some (stubInstance\<lparr>instanceEngine := shortEngine\<rparr>)\<rparr>"

definition failingClient :: fhevmClient where
  "failingClient =
     \<lparr>provider = BrowserProvider, chainId = 11155111,
      fhevmInstance = Some (stubInstance\<lparr>instanceEngine := failingEngine\<rparr>)\<rparr>"

definition localClient :: fhevmClient where
  "localClient = \<lparr>provider = BrowserProvider, chainId = 31337, fhevmInstance = None\<rparr>"

text \<open>Worlds for \<open>createFhevmInstance\<close>: one where the chain id cannot be read, and one on
  Sepolia where everything succeeds and the signal is set while the instance is created, so
  that only the check after the cache write sees it.\<close>

definition brokenWorld :: sdkWorld where
  "brokenWorld =
     \<lparr>chainIdResult = Inl (External ''network unreachable''),
      aborted = (\<lambda>p. False), sdkValid = False,
      loadResult = Inl (External ''script failed to load''), sdkInitialized = False,
      initSDKResult = Inr (), aclContractAddress = addrA,
      createInstanceResult = (\<lambda>cached. Inl (External ''relayer unreachable'')),
      dbRead = workingDb, dbWriteOk = True, mockClock = 1700000000000\<rparr>"

definition lateAbortWorld :: sdkWorld where
  "lateAbortWorld =
     \<lparr>chainIdResult = Inr 11155111,
      aborted = (\<lambda>p. p = AfterCacheSet), sdkValid = True,
      loadResult = Inr (), sdkInitialized = True,
      initSDKResult = Inr (), aclContractAddress = addrA,
      createInstanceResult = (\<lambda>cached. Inr stubInstance),
      dbRead = workingDb, dbWriteOk = True, mockClock = 1700000000000\<rparr>"

definition readyManager :: metaManager where
  "readyManager =
     \<lparr>managerClient = Some localClient, managerChainId = 31337, managerContract = addrA,
      isInitialized = True\<rparr>"

text \<open>Chains: one where the call is mined with status 1, one where sending it fails, one
  where it is mined with status 0 (a revert).\<close>

definition happyChain :: chainWorld where
  "happyChain =
     \<lparr>signerAddress = Inr addrB, contractSigner = Inr (), hasFunction = (\<lambda>name. True),
      sendResult = (\<lambda>name args. Inr ''0xabc1''),
      minedReceipt = (\<lambda>hash. Inr \<lparr>receiptStatus = Some 1, receiptBlockNumber = 100,
                                    receiptGasUsed = ''21000''\<rparr>),
      receiptOf = (\<lambda>hash. Inr None), blockNumberResult = Inr 101,
      freshTransactionId = ''fhe_meta_1'', clockMs = 1700000000000\<rparr>"

definition failingChain :: chainWorld where
  "failingChain = happyChain\<lparr>sendResult := (\<lambda>name args. Inl (External ''insufficient funds''))\<rparr>"

definition revertChain :: chainWorld where
  "revertChain = happyChain
     \<lparr>minedReceipt := (\<lambda>hash. Inr \<lparr>receiptStatus = Some 0, receiptBlockNumber = 100,
                                     receiptGasUsed = ''21000''\<rparr>)\<rparr>"

definition readyHook :: hook where
  "readyHook = newHook\<lparr>metaManagerRef := Some readyManager\<rparr>"


section \<open>Facts about the byte and hex helpers\<close>

lemma bindE_simps: "bindE (Inr x) f = f x" "bindE (Inl e) f = Inl e"
  by (simp_all add: bindE_def)

lemma catchE_simps: "catchE (Inr x) h = Inr x" "catchE (Inl e) h = h e"
  by (simp_all add: catchE_def)

lemma bindE_Inr: "bindE m f = Inr r \<Longrightarrow> \<exists>x. m = Inr x \<and> f x = Inr r"
  by (cases m) (simp_all add: bindE_def)


lemma hexVal_hexChar_all: "\<forall>n\<in>set [0..<16]. hexVal (hexChar n) = Some n"
  by code_simp

lemma hexVal_hexChar: "n < 16 \<Longrightarrow> hexVal (hexChar n) = Some n"
  using hexVal_hexChar_all by simp

lemma unhex2_hex2: "unhex2 (hexChar (unat b div 16)) (hexChar (unat b mod 16)) = Some (b :: byte)"
proof -
  have "unat b < 256" using unsigned_less [of b] by simp
  then have "unat b div 16 < 16" by simp
  moreover have "unat b mod 16 < 16" by simp
  ultimately show ?thesis
    by (simp add: unhex2_def hexVal_hexChar)
qed

lemma parseHexPairs_hex2: "parseHexPairs (concat (map hex2 bs)) = Some bs"
  by (induction bs) (simp_all add: hex2_def unhex2_hex2)

lemma getBytes_hexlify: "getBytes (hexlify bs) = Inr bs"
  by (simp add: getBytes_def hexlify_def parseHexPairs_hex2)

lemma length_hexlify: "length (hexlify bs) = 2 + 2 * length bs"
  by (induction bs) (simp_all add: hexlify_def hex2_def)

lemma hexlify_nonempty: "hexlify bs \<noteq> []"
  by (simp add: hexlify_def)

lemma length_wordBytes: "length (wordBytes w) = 32"
  by (simp add: wordBytes_def)

lemma length_keccak256: "length (keccak256 K bs) = 32"
  by (simp add: keccak256_def length_wordBytes)

lemma parseHexPairs_length: "parseHexPairs s = Some bs \<Longrightarrow> length s = 2 * length bs"
  by (induction s arbitrary: bs rule: parseHexPairs.induct)
     (auto split: option.splits)

text \<open>A number below \<open>256 ^ k\<close> has at most \<open>k\<close> bytes.\<close>

lemma length_beBytes_le: "0 < k \<Longrightarrow> n < 256 ^ k \<Longrightarrow> length (beBytes n) \<le> k"
proof (induction n arbitrary: k rule: beBytes.induct)
  case (1 n)
  show ?case
  proof (cases "n < 256")
    case True
    with 1 show ?thesis by (simp add: beBytes.simps [of n])
  next
    case False
    obtain j where k: "k = Suc j" using 1(2) by (cases k) auto
    from False 1(3) k have "0 < j" by (cases j) auto
    moreover from 1(3) k have "n div 256 < 256 ^ j"
      by (simp add: less_mult_imp_div_less mult.commute)
    ultimately have "length (beBytes (n div 256)) \<le> j" using 1(1) False by blast
    with False k show ?thesis by (simp add: beBytes.simps [of n])
  qed
qed

lemma fromBe_snoc: "fromBe (bs @ [b]) = 256 * fromBe bs + unat b"
  by (simp add: fromBe_def)

lemma fromBe_beBytes: "fromBe (beBytes n) = n"
proof (induction n rule: beBytes.induct)
  case (1 n)
  show ?case
  proof (cases "n < 256")
    case True
    then show ?thesis by (simp add: beBytes.simps [of n] fromBe_def unat_of_nat)
  next
    case False
    with 1 have "fromBe (beBytes (n div 256)) = n div 256" by simp
    with False show ?thesis
      by (simp add: beBytes.simps [of n] fromBe_snoc unat_of_nat)
  qed
qed

lemma fromBe_zeros: "fromBe (replicate k 0 @ bs) = fromBe bs"
  by (induction k) (simp_all add: fromBe_def)

lemma zeroPadValue_length: "zeroPadValue bs n = Inr r \<Longrightarrow> length r = n"
  by (auto simp: zeroPadValue_def split: if_splits)

text \<open>An address that starts with \<open>0x\<close> is of the hex form: twenty bytes, those of its digits.\<close>

lemma getAddress_length: "getAddress K a = Inr bs \<Longrightarrow> take 2 a = ''0x'' \<Longrightarrow> length bs = 20"
  by (auto simp: getAddress_def isIcap_def Let_def split: if_splits option.splits
           dest!: parseHexPairs_length)

lemma getAddress_getBytes:
  "getAddress K a = Inr bs \<Longrightarrow> take 2 a = ''0x'' \<Longrightarrow> getBytes a = Inr bs"
  by (auto simp: getAddress_def isIcap_def getBytes_def Let_def split: if_splits option.splits)

text \<open>An address of either form is a number of at most 32 bytes.\<close>

lemma base36_less: "isAlphaNumeric c \<Longrightarrow> base36 c < 36"
  by (auto simp: isAlphaNumeric_def isDigit_def base36_def toLowerCase_def Let_def)

lemma fromBase36_snoc: "fromBase36 (s @ [c]) = fromBase36 s * 36 + base36 c"
  by (simp add: fromBase36_def)

lemma fromBase36_less: "list_all isAlphaNumeric s \<Longrightarrow> fromBase36 s < 36 ^ length s"
proof (induction s rule: rev_induct)
  case Nil
  show ?case by (simp add: fromBase36_def)
next
  case (snoc c s)
  then have "fromBase36 s < 36 ^ length s" and "base36 c < 36"
    by (simp_all add: base36_less)
  then have "fromBase36 s * 36 + base36 c < (fromBase36 s + 1) * 36" by simp
  also have "\<dots> \<le> 36 ^ length s * 36"
    using \<open>fromBase36 s < 36 ^ length s\<close> by (intro mult_right_mono) simp_all
  finally show ?case by (simp add: fromBase36_snoc)
qed

lemma icap_number_length:
  assumes "isIcap s"
  shows "length (beBytes (fromBase36 (drop 4 s))) \<le> 32"
proof -
  from assms have l: "length (drop 4 s) \<le> 31" and a: "list_all isAlphaNumeric (drop 4 s)"
    by (auto simp: isIcap_def)
  have "fromBase36 (drop 4 s) < 36 ^ length (drop 4 s)" using a by (rule fromBase36_less)
  also have "\<dots> \<le> (36::nat) ^ 31" using l by (intro power_increasing) simp_all
  also have "\<dots> < (256::nat) ^ 32" by simp
  finally show ?thesis by (intro length_beBytes_le) simp_all
qed

lemma getAddress_length_le: "getAddress K a = Inr bs \<Longrightarrow> length bs \<le> 32"
  by (auto simp: getAddress_def Let_def split: if_splits option.splits
           dest!: parseHexPairs_length icap_number_length)

lemma encode_address:
  "getAddress K a = Inr ab \<Longrightarrow>
     encodeValue K AddressT (JStr a) = Inr (replicate (32 - length ab) 0 @ ab)"
  by (simp add: bindE_simps getAddress_length_le)

lemma encode_address_hex:
  assumes "getAddress K a = Inr ab" "take 2 a = ''0x''"
  shows "encodeValue K AddressT (JStr a) = Inr (replicate 12 0 @ ab)"
  using encode_address [OF assms(1)] getAddress_length [OF assms] by simp

lemma beBytes_nonempty: "beBytes n \<noteq> []"
  by (simp add: beBytes.simps [of n])

lemma wordOfUint_nonempty: "wordOfUint n \<noteq> []"
  by (simp add: wordOfUint_def beBytes_nonempty)

lemma toBeHex_ok: "0 \<le> v \<Longrightarrow> v \<le> maxValue \<Longrightarrow> toBeHex v = Inr (beBytes (nat v))"
  by (simp add: toBeHex_def getUint_def getBigInt_def bindE_def maxValue_def)

lemma toBeHex_negative: "v < 0 \<Longrightarrow> - maxValue \<le> v \<Longrightarrow> toBeHex v = Inl NumericFault"
  by (simp add: toBeHex_def getUint_def getBigInt_def bindE_def maxValue_def)

lemma length_beBytes_safe: "0 \<le> v \<Longrightarrow> v \<le> maxValue \<Longrightarrow> length (beBytes (nat v)) \<le> 7"
  by (rule length_beBytes_le) (simp_all add: maxValue_def nat_less_iff)

lemma length_wordOfUint: "length (beBytes n) \<le> 32 \<Longrightarrow> length (wordOfUint n) = 32"
  by (simp add: wordOfUint_def)

lemma fromBe_wordOfUint: "fromBe (wordOfUint n) = n"
  by (simp add: wordOfUint_def fromBe_zeros fromBe_beBytes)

lemma toBeHex_pad:
  "0 \<le> v \<Longrightarrow> v \<le> maxValue \<Longrightarrow> 7 \<le> k \<Longrightarrow>
   bindE (toBeHex v) (\<lambda>h. zeroPadValue h k) =
     Inr (replicate (k - length (beBytes (nat v))) 0 @ beBytes (nat v))"
  using length_beBytes_safe [of v]
  by (simp add: toBeHex_ok bindE_simps zeroPadValue_def)

lemma encode_uint256:
  "0 \<le> v \<Longrightarrow> v \<le> maxValue \<Longrightarrow> encodeValue K (UintT 256) (JNum v) = Inr (wordOfUint (nat v))"
  by (simp add: maxValue_def getBigInt_def bindE_simps)

lemma encode_uint32:
  "0 \<le> v \<Longrightarrow> v < 2 ^ 32 \<Longrightarrow> encodeValue K (UintT 32) (JNum v) = Inr (wordOfUint (nat v))"
  by (simp add: maxValue_def getBigInt_def bindE_simps)

lemma isBytes32_length: "isBytes32 s \<Longrightarrow> length s = 66"
proof -
  assume a: "isBytes32 s"
  then obtain bs where p: "parseHexPairs (drop 2 s) = Some bs" and l: "length bs = 32"
    and t: "take 2 s = ''0x''"
    by (auto simp: isBytes32_def getBytes_def split: if_splits option.splits)
  from t have "2 \<le> length s" by (cases s; cases "tl s") auto
  with parseHexPairs_length [OF p] l show ?thesis by simp
qed

lemma take2_hexlify: "take 2 (hexlify bs) = ''0x''"
  by (simp add: hexlify_def)

lemma isBytes32_hexlify: "length bs = 32 \<Longrightarrow> isBytes32 (hexlify bs)"
  by (simp add: isBytes32_def getBytes_hexlify take2_hexlify)

lemma wellFormed_hexlify:
  "length h = 32 \<Longrightarrow> p \<noteq> [] \<Longrightarrow> wellFormed \<lparr>handle = hexlify h, proof' = hexlify p\<rparr>"
  by (simp add: wellFormed_def isBytes32_hexlify length_hexlify isNonEmptyData_def getBytes_hexlify)

text \<open>The two example addresses are valid whatever the hash: they have no lower-case letter.\<close>

lemma getAddress_addrA: "getAddress K addrA = Inr (replicate 20 170)"
  by (simp add: getAddress_def addrA_def isHexDigit_def hexVal_def isLowerHex_def isUpperHex_def
        unhex2_def numeral_eq_Suc)

lemma getAddress_addrB: "getAddress K addrB = Inr (replicate 20 187)"
  by (simp add: getAddress_def addrB_def isHexDigit_def hexVal_def isLowerHex_def isUpperHex_def
        unhex2_def numeral_eq_Suc)


















section \<open>The encrypted input builder: results\<close>

subsection \<open>What each path returns\<close>

lemma keccak256_nonempty: "keccak256 K bs \<noteq> []"
  using length_keccak256 [of K bs] by auto

lemma abiEncode_bytes32_nonempty:
  assumes "abiEncode K ((Bytes32T, JHex h) # rest) = Inr p" "h \<noteq> []"
  shows "p \<noteq> []"
  using assms by (auto dest!: bindE_Inr split: if_splits)

lemma abiEncode_uint_nonempty:
  assumes "abiEncode K ((UintT bits, JNum v) # rest) = Inr p"
  shows "p \<noteq> []"
  using assms by (auto dest!: bindE_Inr simp: wordOfUint_nonempty split: if_splits)

lemma deterministicFallback_wellFormed:
  assumes "deterministicFallback K c env a v ty = Inr r"
  shows "wellFormed r"
proof (cases "ty = Euint32")
  case True
  with assms show ?thesis
    unfolding deterministicFallback_def
    by (auto dest!: bindE_Inr simp: Let_def wellFormed_hexlify length_keccak256
             keccak256_nonempty abiEncode_bytes32_nonempty simp del: abiEncode.simps)
next
  case False
  with assms show ?thesis
    unfolding deterministicFallback_def
    by (auto dest!: bindE_Inr simp: Let_def wellFormed_hexlify length_keccak256
             keccak256_nonempty abiEncode_bytes32_nonempty simp del: abiEncode.simps)
qed

lemma minimalFallback_wellFormed:
  assumes "minimalFallback K a v = Inr r"
  shows "wellFormed r"
  using assms unfolding minimalFallback_def
  by (auto dest!: bindE_Inr simp: wellFormed_hexlify abiEncode_uint_nonempty
           dest: zeroPadValue_length simp del: abiEncode.simps)

lemma createCompatible_wellFormed:
  assumes "createCompatibleEncryptedInput K c env a v ty = Inr r"
  shows "wellFormed r"
  using assms unfolding createCompatibleEncryptedInput_def catchE_def
  by (auto split: sum.splits dest: deterministicFallback_wellFormed minimalFallback_wellFormed)

lemma checkEncrypted_Inr:
  "checkEncrypted h p = Inr r \<Longrightarrow>
     h = StringValue (handle r) \<and> p = StringValue (proof' r) \<and> handle r \<noteq> [] \<and> proof' r \<noteq> []"
  by (auto simp: checkEncrypted_def split: engineValue.splits if_splits)

lemma sdkPath_result:
  assumes "sdkPath c eng env a v ty = Inr r"
  shows "handle r \<noteq> [] \<and> proof' r \<noteq> []
         \<and> (\<exists>u arg out rest. getUserAddress (provider c) env = Inr u \<and> eng a u arg = Inr out
               \<and> handles out = StringValue (handle r) # rest
               \<and> inputProof out = StringValue (proof' r))"
proof -
  from assms obtain u arg out where u: "getUserAddress (provider c) env = Inr u"
    and e: "eng a u arg = Inr out"
    and c: "checkEncrypted (case handles out of [] \<Rightarrow> Missing | h # _ \<Rightarrow> h) (inputProof out) = Inr r"
    unfolding sdkPath_def catchE_def bindE_def
    by (auto split: sum.splits)
  from checkEncrypted_Inr [OF c] u e show ?thesis
    by (cases "handles out") auto
qed

text \<open>
  An engine that answers with byte arrays never gets its answer returned: the logging throws
  on them, and the call ends in the fallback.
\<close>

lemma sdkPath_byte_arrays:
  "getUserAddress (provider c) env = Inr u \<Longrightarrow>
     sdkPath c bytesEngine env a v ty = Inl (SdkFailed TypeError)"
  by (simp add: sdkPath_def bytesEngine_def checkEncrypted_def bindE_simps catchE_simps)

lemma byte_arrays_end_in_fallback:
  assumes "fhevmInstance c = Some inst" "instanceEngine inst = bytesEngine" "chainId c = 11155111"
  shows "createEncryptedInput K c env env' a v ty = createCompatibleEncryptedInput K c env' a v ty"
proof (cases "getUserAddress (provider c) env")
  case (Inl e)
  with assms show ?thesis
    by (simp add: createEncryptedInput_def sdkPath_def bindE_simps catchE_simps)
next
  case (Inr u)
  with assms sdkPath_byte_arrays [OF Inr] show ?thesis
    by (simp add: createEncryptedInput_def catchE_simps)
qed

lemma minimalFallback_ok:
  assumes "0 \<le> v" "v \<le> maxValue" "getAddress K a = Inr ab"
  shows "minimalFallback K a v =
     Inr \<lparr>handle = hexlify (replicate (32 - length (beBytes (nat v))) 0 @ beBytes (nat v)),
          proof' = hexlify (wordOfUint (nat v) @ replicate (32 - length ab) 0 @ ab)\<rparr>"
  using assms
  by (simp add: minimalFallback_def toBeHex_pad encode_uint256 encode_address bindE_simps
        del: encodeValue.simps)

lemma deterministicFallback_euint32_ok:
  fixes K c env a v u ab ub
  defines "H \<equiv> keccak256 K (euint32HandleInput ab ub
                 (replicate (32 - length (beBytes (nat v))) 0 @ beBytes (nat v))
                 (replicate (8 - length (beBytes (nat (timestamp env)))) 0 @ beBytes (nat (timestamp env)))
                 (replicate (8 - length (beBytes (nat (nonce env)))) 0 @ beBytes (nat (nonce env))))"
    and "S \<equiv> keccak256 K (toUtf8Bytes (''proof_'' @ numToString v @ ''_''
                 @ numToString (timestamp env) @ ''_'' @ numToString (nonce env)))"
  assumes u: "getUserAddress (provider c) env = Inr u"
    and a: "getAddress K a = Inr ab" "take 2 a = ''0x''"
    and ub: "getAddress K u = Inr ub" "take 2 u = ''0x''"
    and v: "0 \<le> v" "v < 2 ^ 32"
    and t: "0 \<le> timestamp env" "timestamp env \<le> maxValue"
    and n: "0 \<le> nonce env" "nonce env \<le> maxValue"
  shows "deterministicFallback K c env a v Euint32 =
       Inr \<lparr>handle = hexlify H,
            proof' = hexlify (H @ (replicate 12 0 @ ab) @ (replicate 12 0 @ ub) @ wordOfUint (nat v)
               @ wordOfUint (nat (timestamp env)) @ S)\<rparr>"
proof -
  from v have vm: "v \<le> maxValue" by (simp add: maxValue_def)
  have pv: "bindE (toBeHex v) (\<lambda>h. zeroPadValue h 32) =
      Inr (replicate (32 - length (beBytes (nat v))) 0 @ beBytes (nat v))"
    using v(1) vm by (simp add: toBeHex_pad)
  have pt: "bindE (toBeHex (timestamp env)) (\<lambda>h. zeroPadValue h 8) =
      Inr (replicate (8 - length (beBytes (nat (timestamp env)))) 0 @ beBytes (nat (timestamp env)))"
    using t by (simp add: toBeHex_pad)
  have pn: "bindE (toBeHex (nonce env)) (\<lambda>h. zeroPadValue h 8) =
      Inr (replicate (8 - length (beBytes (nat (nonce env)))) 0 @ beBytes (nat (nonce env)))"
    using n by (simp add: toBeHex_pad)
  have ga: "getBytes a = Inr ab" using a by (rule getAddress_getBytes)
  have gu: "getBytes u = Inr ub" using ub by (rule getAddress_getBytes)
  show ?thesis
    unfolding deterministicFallback_def H_def S_def
    by (simp add: u pv pt pn ga gu bindE_simps Let_def length_keccak256
          encode_address_hex [OF a] encode_address_hex [OF ub]
          encode_uint32 [OF v] encode_uint256 [OF t] del: encodeValue.simps(2,3))
qed

lemma decode_proof6:
  assumes "length H = 32" "length ab = 20" "length ub = 20" "length S = 32"
    and "x < 2 ^ 32" "t < 2 ^ 256" "length (beBytes x) \<le> 32" "length (beBytes t) \<le> 32"
  shows "decodeHex [Bytes32T, AddressT, AddressT, UintT 32, UintT 256, Bytes32T]
           (hexlify (H @ (replicate 12 0 @ ab) @ (replicate 12 0 @ ub) @ wordOfUint x @ wordOfUint t @ S))
         = Some [BytesV H, AddressV ab, AddressV ub, UintV x, UintV t, BytesV S]"
  using assms
  by (simp add: decodeHex_def getBytes_hexlify length_wordOfUint fromBe_wordOfUint)

lemma sdkPath_stub:
  "sdkPath sepoliaClient stubEngine exampleEnv addrA 5 Euint32 =
     Inr \<lparr>handle = hexlify (replicate 32 1), proof' = ''0x01''\<rparr>"
  by (simp add: sdkPath_def sepoliaClient_def stubEngine_def exampleEnv_def getUserAddress_def
        checkEncrypted_def bindE_simps catchE_simps hexlify_nonempty)

lemma sdkPath_short:
  "sdkPath shortClient shortEngine exampleEnv addrA 5 Euint32 =
     Inr \<lparr>handle = ''0x01'', proof' = ''0x''\<rparr>"
  by (simp add: sdkPath_def shortClient_def shortEngine_def exampleEnv_def getUserAddress_def
        checkEncrypted_def bindE_simps catchE_simps)


lemma userAddress_example: "getUserAddress (provider localClient) exampleEnv = Inr addrB"
  by (simp add: getUserAddress_def localClient_def exampleEnv_def)

lemma userAddress_failing: "getUserAddress (provider failingClient) exampleEnv = Inr addrB"
  by (simp add: getUserAddress_def failingClient_def exampleEnv_def)

lemma example_ranges:
  "0 \<le> timestamp exampleEnv" "timestamp exampleEnv \<le> maxValue"
  "0 \<le> nonce exampleEnv" "nonce exampleEnv \<le> maxValue"
  by (simp_all add: exampleEnv_def maxValue_def)

lemma take2_addr: "take 2 addrA = ''0x''" "take 2 addrB = ''0x''"
  by (simp_all add: addrA_def addrB_def)

lemma deterministic_example:
  "\<exists>r. deterministicFallback zeroHash localClient exampleEnv addrA 5 Euint32 = Inr r"
  using deterministicFallback_euint32_ok [OF userAddress_example getAddress_addrA take2_addr(1)
          getAddress_addrB take2_addr(2) _ _ example_ranges, of 5]
  by simp

lemma deterministic_failing_example:
  "\<exists>r. deterministicFallback zeroHash failingClient exampleEnv addrA 5 Euint32 = Inr r"
  using deterministicFallback_euint32_ok [OF userAddress_failing getAddress_addrA take2_addr(1)
          getAddress_addrB take2_addr(2) _ _ example_ranges, of 5]
  by simp

lemma minimal_example: "\<exists>r. minimalFallback zeroHash addrA 5 = Inr r"
  using minimalFallback_ok [of 5 zeroHash addrA, OF _ _ getAddress_addrA]
  by (simp add: maxValue_def)



subsection \<open>C1: the shape of the result on every path\<close>

text \<open>
  C1 as stated fails on the engine path. There the sources take the engine's first handle
  and its proof, refuse them only when one is missing or the empty string, and return them
  unchanged. With an engine that answers with the strings \<open>0x01\<close> and \<open>0x\<close>, the result
  has a handle of one byte and a proof of zero bytes.
\<close>

theorem createEncryptedInput_returns_engine_strings:
  "createEncryptedInput zeroHash shortClient exampleEnv exampleEnv addrA 5 Euint32
     = Inr \<lparr>handle = ''0x01'', proof' = ''0x''\<rparr>
   \<and> getBytes ''0x01'' = Inr [1] \<and> getBytes ''0x'' = Inr []
   \<and> \<not> wellFormed \<lparr>handle = ''0x01'', proof' = ''0x''\<rparr>"
proof -
  have inst: "fhevmInstance shortClient = Some (stubInstance\<lparr>instanceEngine := shortEngine\<rparr>)"
    "chainId shortClient = 11155111"
    by (simp_all add: shortClient_def)
  have "createEncryptedInput zeroHash shortClient exampleEnv exampleEnv addrA 5 Euint32
          = sdkPath shortClient shortEngine exampleEnv addrA 5 Euint32"
    by (simp add: createEncryptedInput_def inst sdkPath_short catchE_simps)
  moreover have "getBytes ''0x01'' = Inr [1]" "getBytes ''0x'' = Inr []"
    by (simp_all add: getBytes_def unhex2_def hexVal_def)
  ultimately show ?thesis
    by (simp add: sdkPath_short wellFormed_def)
qed


text \<open>
  C1 amended. Whatever the value, the type, the addresses and the environment: a result of
  the deterministic fallback and a result of the minimal fallback have a handle that is a
  66-character \<open>0x\<close> hex string of exactly 32 bytes and a proof that is hex data of at least
  one byte. A result of the engine path is the engine's first handle and the engine's proof,
  both strings and neither empty, returned as the engine gave them. So a result of
  \<open>createEncryptedInput\<close> is well formed in that sense, or it is the result of the engine
  path on Sepolia.
\<close>

theorem createEncryptedInput_result_shape:
  "(\<forall>r. deterministicFallback K c env a v ty = Inr r \<longrightarrow> wellFormed r)
   \<and> (\<forall>r. minimalFallback K a v = Inr r \<longrightarrow> wellFormed r)
   \<and> (\<forall>eng r. sdkPath c eng env a v ty = Inr r \<longrightarrow>
         handle r \<noteq> [] \<and> proof' r \<noteq> []
         \<and> (\<exists>u arg out rest. getUserAddress (provider c) env = Inr u \<and> eng a u arg = Inr out
               \<and> handles out = StringValue (handle r) # rest
               \<and> inputProof out = StringValue (proof' r)))
   \<and> (\<forall>r. createEncryptedInput K c env env' a v ty = Inr r \<longrightarrow>
         wellFormed r
         \<or> (chainId c = 11155111
            \<and> (\<exists>inst. fhevmInstance c = Some inst
                  \<and> sdkPath c (instanceEngine inst) env a v ty = Inr r)))"
proof (intro conjI allI impI)
  fix r assume "deterministicFallback K c env a v ty = Inr r"
  then show "wellFormed r" by (rule deterministicFallback_wellFormed)
next
  fix r assume "minimalFallback K a v = Inr r"
  then show "wellFormed r" by (rule minimalFallback_wellFormed)
next
  fix eng r assume s: "sdkPath c eng env a v ty = Inr r"
  from sdkPath_result [OF s] show "handle r \<noteq> []" by blast
  from sdkPath_result [OF s] show "proof' r \<noteq> []" by blast
  from sdkPath_result [OF s]
  show "\<exists>u arg out rest. getUserAddress (provider c) env = Inr u \<and> eng a u arg = Inr out
               \<and> handles out = StringValue (handle r) # rest
               \<and> inputProof out = StringValue (proof' r)" by blast
next
  fix r assume "createEncryptedInput K c env env' a v ty = Inr r"
  then show "wellFormed r
         \<or> (chainId c = 11155111
            \<and> (\<exists>inst. fhevmInstance c = Some inst
                  \<and> sdkPath c (instanceEngine inst) env a v ty = Inr r))"
    unfolding createEncryptedInput_def catchE_def
    by (auto split: sum.splits option.splits if_splits dest: createCompatible_wellFormed)
qed


text \<open>
  Witness for C1 amended: value 5 for the contract \<open>0xAA..AA\<close>. With no engine the result
  comes from the deterministic fallback and is well formed, and so is that of the minimal
  fallback; with an engine on Sepolia the result is what the engine returned.
\<close>

theorem createEncryptedInput_result_shape_witness:
  "(\<exists>r. deterministicFallback zeroHash localClient exampleEnv addrA 5 Euint32 = Inr r \<and> wellFormed r)
   \<and> (\<exists>r. minimalFallback zeroHash addrA 5 = Inr r \<and> wellFormed r)
   \<and> (\<exists>r. createEncryptedInput zeroHash localClient exampleEnv exampleEnv addrA 5 Euint32 = Inr r
          \<and> wellFormed r)
   \<and> (\<exists>r u arg out rest. sdkPath sepoliaClient stubEngine exampleEnv addrA 5 Euint32 = Inr r
          \<and> getUserAddress (provider sepoliaClient) exampleEnv = Inr u
          \<and> stubEngine addrA u arg = Inr out
          \<and> handles out = StringValue (handle r) # rest
          \<and> inputProof out = StringValue (proof' r))"
proof -
  note t = createEncryptedInput_result_shape
             [of zeroHash localClient exampleEnv addrA 5 Euint32 exampleEnv]
  note s = createEncryptedInput_result_shape
             [of zeroHash sepoliaClient exampleEnv addrA 5 Euint32 exampleEnv]
  have none: "fhevmInstance localClient = None" by (simp add: localClient_def)
  from t deterministic_example
  have 1: "\<exists>r. deterministicFallback zeroHash localClient exampleEnv addrA 5 Euint32 = Inr r
             \<and> wellFormed r"
    by blast
  from t minimal_example
  have 2: "\<exists>r. minimalFallback zeroHash addrA 5 = Inr r \<and> wellFormed r" by blast
  obtain r where r: "deterministicFallback zeroHash localClient exampleEnv addrA 5 Euint32 = Inr r"
    using deterministic_example by blast
  then have "createEncryptedInput zeroHash localClient exampleEnv exampleEnv addrA 5 Euint32 = Inr r"
    by (simp add: createEncryptedInput_def createCompatibleEncryptedInput_def none catchE_simps)
  with t none
  have 3: "\<exists>r. createEncryptedInput zeroHash localClient exampleEnv exampleEnv addrA 5 Euint32 = Inr r
             \<and> wellFormed r"
    by auto
  from s sdkPath_stub
  have 4: "\<exists>r u arg out rest. sdkPath sepoliaClient stubEngine exampleEnv addrA 5 Euint32 = Inr r
          \<and> getUserAddress (provider sepoliaClient) exampleEnv = Inr u
          \<and> stubEngine addrA u arg = Inr out
          \<and> handles out = StringValue (handle r) # rest
          \<and> inputProof out = StringValue (proof' r)"
    by blast
  from 1 2 3 4 show ?thesis by blast
qed


subsection \<open>C2: the function returns\<close>







subsection \<open>C3: what the fallback handle is a hash of\<close>

text \<open>
  The sibling branch first: for \<open>euint32\<close>, two calls whose timestamps or nonces differ
  hash different byte strings. Then the \<open>ebool\<close> branch on valid input: it returns a
  result, and neither its handle nor its proof mentions the nonce.
\<close>

lemma padded_beBytes_inj:
  assumes "replicate (k - length (beBytes m)) 0 @ beBytes m
           = replicate (k - length (beBytes n)) 0 @ beBytes n"
  shows "m = n"
proof -
  from assms have "fromBe (replicate (k - length (beBytes m)) 0 @ beBytes m)
           = fromBe (replicate (k - length (beBytes n)) 0 @ beBytes n)" by simp
  then show ?thesis by (simp add: fromBe_zeros fromBe_beBytes)
qed

lemma euint32HandleInput_inj:
  assumes "length tb = length tb'"
    and "euint32HandleInput cb ub vb tb nb = euint32HandleInput cb ub vb tb' nb'"
  shows "tb = tb' \<and> nb = nb'"
  using assms by (simp add: euint32HandleInput_def)

lemma euint32_hash_input_distinct:
  assumes t: "0 \<le> t1" "t1 \<le> maxValue" "0 \<le> t2" "t2 \<le> maxValue"
    and n: "0 \<le> n1" "n1 \<le> maxValue" "0 \<le> n2" "n2 \<le> maxValue"
    and d: "t1 \<noteq> t2 \<or> n1 \<noteq> n2"
  shows "euint32HandleInput cb ub vb
           (replicate (8 - length (beBytes (nat t1))) 0 @ beBytes (nat t1))
           (replicate (8 - length (beBytes (nat n1))) 0 @ beBytes (nat n1))
       \<noteq> euint32HandleInput cb ub vb
           (replicate (8 - length (beBytes (nat t2))) 0 @ beBytes (nat t2))
           (replicate (8 - length (beBytes (nat n2))) 0 @ beBytes (nat n2))"
proof
  assume eq: "euint32HandleInput cb ub vb
           (replicate (8 - length (beBytes (nat t1))) 0 @ beBytes (nat t1))
           (replicate (8 - length (beBytes (nat n1))) 0 @ beBytes (nat n1))
       = euint32HandleInput cb ub vb
           (replicate (8 - length (beBytes (nat t2))) 0 @ beBytes (nat t2))
           (replicate (8 - length (beBytes (nat n2))) 0 @ beBytes (nat n2))"
  have l1: "length (beBytes (nat t1)) \<le> 8" using length_beBytes_safe [OF t(1,2)] by simp
  have l2: "length (beBytes (nat t2)) \<le> 8" using length_beBytes_safe [OF t(3,4)] by simp
  have len: "length (replicate (8 - length (beBytes (nat t1))) (0::byte) @ beBytes (nat t1))
           = length (replicate (8 - length (beBytes (nat t2))) (0::byte) @ beBytes (nat t2))"
    using l1 l2 by simp
  from euint32HandleInput_inj [OF len eq]
  have "nat t1 = nat t2" "nat n1 = nat n2"
    by (auto dest: padded_beBytes_inj)
  with t n d show False by auto
qed

lemma deterministicFallback_ebool_ok:
  fixes K c env a v u ab ub
  defines "b \<equiv> (if v \<noteq> 0 then 1 else 0 :: int)"
  defines "H \<equiv> keccak256 K (eboolHandleInput ab ub
                 (replicate (32 - length (beBytes (nat b))) 0 @ beBytes (nat b))
                 (replicate (8 - length (beBytes (nat (timestamp env)))) 0 @ beBytes (nat (timestamp env))))"
    and "S \<equiv> keccak256 K (toUtf8Bytes (''bool_proof_'' @ numToString b @ ''_''
                 @ numToString (timestamp env)))"
  assumes u: "getUserAddress (provider c) env = Inr u"
    and a: "getAddress K a = Inr ab" "take 2 a = ''0x''"
    and ub: "getAddress K u = Inr ub" "take 2 u = ''0x''"
    and t: "0 \<le> timestamp env" "timestamp env \<le> maxValue"
  shows "deterministicFallback K c env a v Ebool =
       Inr \<lparr>handle = hexlify H,
            proof' = hexlify (H @ (replicate 12 0 @ ab) @ (replicate 12 0 @ ub)
               @ wordOfUint (if v \<noteq> 0 then 1 else 0)
               @ wordOfUint (nat (timestamp env)) @ S)\<rparr>"
proof -
  have b: "0 \<le> b" "b \<le> maxValue" by (simp_all add: b_def maxValue_def)
  have pv: "bindE (toBeHex b) (\<lambda>h. zeroPadValue h 32) =
      Inr (replicate (32 - length (beBytes (nat b))) 0 @ beBytes (nat b))"
    using b by (simp add: toBeHex_pad)
  have pt: "bindE (toBeHex (timestamp env)) (\<lambda>h. zeroPadValue h 8) =
      Inr (replicate (8 - length (beBytes (nat (timestamp env)))) 0 @ beBytes (nat (timestamp env)))"
    using t by (simp add: toBeHex_pad)
  have ga: "getBytes a = Inr ab" using a by (rule getAddress_getBytes)
  have gu: "getBytes u = Inr ub" using ub by (rule getAddress_getBytes)
  have ne: "(Ebool = Euint32) = False" by simp
  show ?thesis
    unfolding deterministicFallback_def H_def S_def ne if_False Let_def b_def [symmetric]
    by (simp add: u pv pt ga gu bindE_simps length_keccak256
          encode_address_hex [OF a] encode_address_hex [OF ub]
          encode_uint256 [OF t] del: encodeValue.simps(2,3))
qed


text \<open>
  C3. The \<open>euint32\<close> branch hashes the type tag, both addresses, the padded value, the
  timestamp and the nonce (\<open>euint32HandleInput\<close>). The \<open>ebool\<close> branch leaves the nonce out
  (\<open>eboolHandleInput\<close>), in the handle and in the proof alike: two \<open>ebool\<close> fallback calls
  that differ only in their nonce return the same result, handle included.
\<close>

theorem ebool_fallback_ignores_nonce:
  "createCompatibleEncryptedInput K c (env\<lparr>nonce := n1\<rparr>) a v Ebool
     = createCompatibleEncryptedInput K c (env\<lparr>nonce := n2\<rparr>) a v Ebool"
proof -
  have sel: "signer (env\<lparr>nonce := n\<rparr>) = signer env"
            "timestamp (env\<lparr>nonce := n\<rparr>) = timestamp env" for n
    by simp_all
  have ne: "(Ebool = Euint32) = False" by simp
  show ?thesis
    unfolding createCompatibleEncryptedInput_def deterministicFallback_def getUserAddress_def
      sel ne if_False
    by (rule refl)
qed

subsection \<open>C4: the scenario with no engine\<close>

text \<open>
  C4. With no engine instance, a request to encrypt a value of type \<open>euint32\<close> takes the
  fallback path (the result is the deterministic fallback's) and returns a handle of 66
  characters, \<open>0x\<close> and the hex digits of 32 bytes, and a proof that decodes as
  \<open>(bytes32, address, address, uint32, uint256, bytes32)\<close> to the handle, the contract
  address, the user address, the value, the timestamp and a second hash. It is stated for
  every value in the \<open>uint32\<close> range and every pair of \<open>0x\<close> addresses; the clock and the
  random number are in the ranges \<open>Date.now()\<close> and \<open>Math.random()\<close> give. The scenario of the
  claim, value 5 with \<open>0xAA..AA\<close> and \<open>0xBB..BB\<close>, is the witness.
\<close>

theorem fallback_scenario:
  assumes none: "fhevmInstance c = None"
    and u: "getUserAddress (provider c) env = Inr u"
    and a: "getAddress K a = Inr ab" "take 2 a = ''0x''"
    and ub: "getAddress K u = Inr ub" "take 2 u = ''0x''"
    and v: "0 \<le> v" "v < 2 ^ 32"
    and t: "0 \<le> timestamp env" "timestamp env \<le> maxValue"
    and n: "0 \<le> nonce env" "nonce env \<le> maxValue"
  shows "\<exists>r H S. createEncryptedInput K c env env' a v Euint32 = Inr r
           \<and> deterministicFallback K c env a v Euint32 = Inr r
           \<and> length (handle r) = 66 \<and> take 2 (handle r) = ''0x''
           \<and> getBytes (handle r) = Inr H \<and> length H = 32
           \<and> decodeHex [Bytes32T, AddressT, AddressT, UintT 32, UintT 256, Bytes32T] (proof' r)
               = Some [BytesV H, AddressV ab, AddressV ub, UintV (nat v),
                       UintV (nat (timestamp env)), BytesV S]"
proof -
  from deterministicFallback_euint32_ok [OF u a ub v t n]
  obtain H S where HS: "length H = 32" "length S = 32"
    and det: "deterministicFallback K c env a v Euint32 =
       Inr \<lparr>handle = hexlify H,
            proof' = hexlify (H @ (replicate 12 0 @ ab) @ (replicate 12 0 @ ub) @ wordOfUint (nat v)
               @ wordOfUint (nat (timestamp env)) @ S)\<rparr>"
    by (metis length_keccak256)
  let ?r = "\<lparr>handle = hexlify H,
            proof' = hexlify (H @ (replicate 12 0 @ ab) @ (replicate 12 0 @ ub) @ wordOfUint (nat v)
               @ wordOfUint (nat (timestamp env)) @ S)\<rparr>"
  have cei: "createEncryptedInput K c env env' a v Euint32 = Inr ?r"
    by (simp add: createEncryptedInput_def createCompatibleEncryptedInput_def none det catchE_simps)
  from v have vm: "v \<le> maxValue" by (simp add: maxValue_def)
  have lv: "length (beBytes (nat v)) \<le> 32" using length_beBytes_safe [OF v(1) vm] by simp
  have lt: "length (beBytes (nat (timestamp env))) \<le> 32" using length_beBytes_safe [OF t] by simp
  have nv: "nat v < 2 ^ 32" using v by (simp add: nat_less_iff)
  have nt: "nat (timestamp env) < 2 ^ 256" using t by (simp add: nat_less_iff maxValue_def)
  have dec: "decodeHex [Bytes32T, AddressT, AddressT, UintT 32, UintT 256, Bytes32T] (proof' ?r)
               = Some [BytesV H, AddressV ab, AddressV ub, UintV (nat v),
                       UintV (nat (timestamp env)), BytesV S]"
    using decode_proof6 [OF HS(1) getAddress_length [OF a] getAddress_length [OF ub] HS(2) nv nt lv lt]
    by simp
  have "length (handle ?r) = 66" "getBytes (handle ?r) = Inr H" "take 2 (handle ?r) = ''0x''"
    using HS(1) by (simp_all add: length_hexlify getBytes_hexlify take2_hexlify)
  with cei det dec HS(1) show ?thesis by blast
qed


text \<open>Witness for C4: the scenario itself; the fourth field of the decoded proof is 5.\<close>

theorem fallback_scenario_witness:
  "\<exists>r H S. createEncryptedInput zeroHash localClient exampleEnv exampleEnv addrA 5 Euint32 = Inr r
      \<and> deterministicFallback zeroHash localClient exampleEnv addrA 5 Euint32 = Inr r
      \<and> length (handle r) = 66 \<and> take 2 (handle r) = ''0x''
      \<and> getBytes (handle r) = Inr H \<and> length H = 32
      \<and> decodeHex [Bytes32T, AddressT, AddressT, UintT 32, UintT 256, Bytes32T] (proof' r)
          = Some [BytesV H, AddressV (replicate 20 170), AddressV (replicate 20 187), UintV 5,
                  UintV 1700000000, BytesV S]"
proof -
  have none: "fhevmInstance localClient = None" by (simp add: localClient_def)
  have ts: "nat (timestamp exampleEnv) = 1700000000" by (simp add: exampleEnv_def)
  from fallback_scenario [where v = 5 and env' = exampleEnv, OF none userAddress_example
          getAddress_addrA take2_addr(1) getAddress_addrB take2_addr(2) _ _ example_ranges]
  show ?thesis by (simp add: ts)
qed

section \<open>The key material cache: results\<close>

text \<open>
  C6 as stated fails in three places. On a working store, \<open>get\<close> for an address that was
  never written builds its result with \<open>...(publicKey && { publicKey })\<close>: the result has
  \<open>publicParams: null\<close> and no \<open>publicKey\<close> property at all, which is not
  \<open>{publicKey: null, publicParams: null}\<close>. When the two read requests fail, each promise
  resolves \<open>null\<close> from \<open>onerror\<close> and the result is the same one, not the object of the
  \<open>catch\<close> block. And a key whose id is the empty string is written by \<open>set\<close> but left out
  of the result of \<open>get\<close>, whose test is \<open>publicKeyId && publicKey\<close>.
\<close>

theorem cache_unknown_key_not_null:
  "storageGet workingDb emptyStore addrA = \<lparr>resultPublicKey = Absent, resultPublicParams = Null\<rparr>
   \<and> storageGet failingReads emptyStore addrA
        = \<lparr>resultPublicKey = Absent, resultPublicParams = Null\<rparr>
   \<and> \<lparr>resultPublicKey = Absent, resultPublicParams = Null\<rparr>
        \<noteq> \<lparr>resultPublicKey = Null :: (string \<times> byte list) field, resultPublicParams = Null\<rparr>
   \<and> resultPublicKey (storageGet workingDb
          (storageSet True emptyStore addrA (Some unnamedKey) (Some stubParams)) addrA) = Absent"
  by (simp add: storageGet_def storageGetBody_def storageSet_def emptyStore_def workingDb_def
        failingReads_def unnamedKey_def)


text \<open>
  C6 amended. \<open>get\<close> never throws. After \<open>set(address, pk, params)\<close> on a working store,
  with \<open>pk\<close> and \<open>params\<close> not null and the key's id not empty, \<open>get(address)\<close> on a working
  store returns \<open>publicKey = {id, data}\<close> of \<open>pk\<close> and \<open>publicParams = {"2048": params}\<close>.
  For an address never written, \<open>get\<close> returns \<open>publicParams: null\<close> and no \<open>publicKey\<close>
  whenever the database opens, whether its read requests succeed or fail; when the
  database does not open it returns \<open>{publicKey: null, publicParams: null}\<close>.
\<close>

theorem cache_round_trip:
  "(publicKeyId pk \<noteq> [] \<longrightarrow>
      storageGet workingDb (storageSet True st d (Some pk) (Some pp)) d
        = \<lparr>resultPublicKey = Present (publicKeyId pk, publicKey pk),
           resultPublicParams = Present pp\<rparr>)
   \<and> (dbOpens db \<and> publicKeyStore st d = None \<and> paramsStore st d = None \<longrightarrow>
        storageGet db st d = \<lparr>resultPublicKey = Absent, resultPublicParams = Null\<rparr>)
   \<and> (\<not> dbOpens db \<longrightarrow>
        storageGet db st d = \<lparr>resultPublicKey = Null, resultPublicParams = Null\<rparr>)"
  by (simp add: storageGet_def storageGetBody_def storageSet_def workingDb_def)


text \<open>
  Witness for C6 amended: a key with id \<open>key-1\<close> written to the empty store and read back;
  the empty store read with failing requests; and the empty store behind a database that
  does not open.
\<close>

theorem cache_round_trip_witness:
  "storageGet workingDb (storageSet True emptyStore addrA (Some stubKey) (Some stubParams)) addrA
     = \<lparr>resultPublicKey = Present (''key-1'', [1, 2, 3]), resultPublicParams = Present stubParams\<rparr>
   \<and> storageGet failingReads emptyStore addrA
        = \<lparr>resultPublicKey = Absent, resultPublicParams = Null\<rparr>
   \<and> storageGet (workingDb\<lparr>dbOpens := False\<rparr>) emptyStore addrA
        = \<lparr>resultPublicKey = Null, resultPublicParams = Null\<rparr>"
  using cache_round_trip [of stubKey emptyStore addrA stubParams failingReads]
        cache_round_trip [of stubKey emptyStore addrA stubParams "workingDb\<lparr>dbOpens := False\<rparr>"]
  by (simp add: emptyStore_def stubKey_def failingReads_def)

section \<open>The life cycle of a meta-transaction: results\<close>

lemma advances_simps:
  "advances Pending s" "advances Processing Processing" "advances Processing Completed"
  "advances Processing Failed" "advances Completed Completed" "advances Failed Failed"
  by (cases s; simp add: advances_def)+

lemma submitTransaction_statuses:
  assumes "status tx = Pending"
  shows "(\<forall>r. outcome (submitTransaction w tx) = Inr r \<longrightarrow>
            r = last (snapshots (submitTransaction w tx)) \<and>
            map status (snapshots (submitTransaction w tx)) \<in>
              {[Pending, Processing, Processing, Completed],
               [Pending, Processing, Processing, Failed]})
       \<and> (\<forall>e. outcome (submitTransaction w tx) = Inl e \<longrightarrow>
            map status (snapshots (submitTransaction w tx)) \<in>
              {[Pending], [Pending, Processing], [Pending, Processing, Processing]})"
  using assms
  by (simp add: submitTransaction_def wait_def bindE_def Let_def split: sum.splits)

lemma executeMetaTransaction_statuses:
  "map status (snapshots (executeMetaTransaction m w name params)) \<in>
     {[], [Pending, Failed], [Pending, Processing, Failed], [Pending, Processing, Processing, Failed],
      [Pending, Processing, Processing, Completed],
      [Pending, Processing, Processing, Failed]}"
proof (cases "\<not> isInitialized m \<or> managerClient m = None")
  case True
  then show ?thesis by (auto simp: executeMetaTransaction_def)
next
  case False
  show ?thesis
  proof (cases "signerAddress w")
    case (Inl e)
    with False show ?thesis by (simp add: executeMetaTransaction_def)
  next
    case (Inr user)
    define tx where "tx = \<lparr>txId = freshTransactionId w,
                       txContractAddress = managerContract m,
                       functionName = name,
                       encryptedParams = params,
                       txUserAddress = user,
                       txTimestamp = clockMs w,
                       txChainId = managerChainId m,
                       status = Pending,
                       txHash = None, blockNumber = None, gasUsed = None\<rparr>"
    have p: "status tx = Pending" by (simp add: tx_def)
    note s = submitTransaction_statuses [OF p, of w]
    have e: "executeMetaTransaction m w name params =
        (case outcome (submitTransaction w tx) of
           Inr r \<Rightarrow> (submitTransaction w tx)\<lparr>events := GetSigner # events (submitTransaction w tx)\<rparr>
         | Inl e \<Rightarrow> \<lparr>events = GetSigner # events (submitTransaction w tx),
                     snapshots = snapshots (submitTransaction w tx)
                        @ [(last (snapshots (submitTransaction w tx)))\<lparr>status := Failed\<rparr>],
                     outcome = Inl (MetaTransactionFailed e)\<rparr>)"
      using False Inr unfolding executeMetaTransaction_def tx_def Let_def by auto
    show ?thesis
    proof (cases "outcome (submitTransaction w tx)")
      case (Inr r)
      with s e show ?thesis by auto
    next
      case (Inl err)
      with s e show ?thesis by auto
    qed
  qed
qed


lemma refreshTransaction_advances: "advances (status tx) (status (refreshTransaction h w tx))"
  by (cases "status tx")
     (auto simp: refreshTransaction_def advances_def split: option.splits sum.splits)


text \<open>
  C5. Along the successive states of the record that \<open>executeMetaTransaction\<close> builds, the
  status of an earlier state and that of any later one are equal or in the order
  \<open>pending\<close>, \<open>processing\<close>, then \<open>completed\<close> or \<open>failed\<close>; in particular nothing follows
  \<open>completed\<close> or \<open>failed\<close> but itself. One pass of the polling loop moves each status the
  same way, returns a \<open>completed\<close> or \<open>failed\<close> transaction as it is, and so does the whole
  pass over the history.
\<close>

theorem status_only_advances:
  "sorted_wrt advances (map status (snapshots (executeMetaTransaction m w name params)))
   \<and> advances (status tx) (status (refreshTransaction h w tx))
   \<and> refreshTransaction h w (tx\<lparr>status := Completed\<rparr>) = tx\<lparr>status := Completed\<rparr>
   \<and> refreshTransaction h w (tx\<lparr>status := Failed\<rparr>) = tx\<lparr>status := Failed\<rparr>
   \<and> list_all2 (\<lambda>old new. advances (status old) (status new))
         (transactions (hookState h)) (transactions (hookState (updateTransactionStatuses h w)))"
proof (intro conjI)
  show "sorted_wrt advances (map status (snapshots (executeMetaTransaction m w name params)))"
    using executeMetaTransaction_statuses [of m w name params]
    by (auto simp: advances_simps)
  show "advances (status tx) (status (refreshTransaction h w tx))"
    by (rule refreshTransaction_advances)
  show "refreshTransaction h w (tx\<lparr>status := Completed\<rparr>) = tx\<lparr>status := Completed\<rparr>"
    by (simp add: refreshTransaction_def)
  show "refreshTransaction h w (tx\<lparr>status := Failed\<rparr>) = tx\<lparr>status := Failed\<rparr>"
    by (simp add: refreshTransaction_def)
  show "list_all2 (\<lambda>old new. advances (status old) (status new))
         (transactions (hookState h)) (transactions (hookState (updateTransactionStatuses h w)))"
  proof -
    have refl: "advances s s" for s by (simp add: advances_def)
    show ?thesis
      by (simp add: updateTransactionStatuses_def list_all2_conv_all_nth
            refreshTransaction_advances refl)
  qed
qed

lemma happy_statuses:
  "map status (snapshots (executeMetaTransaction readyManager happyChain ''vote'' []))
     = [Pending, Processing, Processing, Completed]"
  by (simp add: executeMetaTransaction_def submitTransaction_def wait_def bindE_simps
        readyManager_def happyChain_def Let_def)


text \<open>
  Witness for C5: a call that is sent and mined with status 1 goes through \<open>pending\<close>,
  \<open>processing\<close> (twice: the hash is recorded in between) and \<open>completed\<close>.
\<close>

theorem status_only_advances_witness:
  "map status (snapshots (executeMetaTransaction readyManager happyChain ''vote'' []))
     = [Pending, Processing, Processing, Completed]
   \<and> sorted_wrt advances [Pending, Processing, Processing, Completed]"
  using status_only_advances [of readyManager happyChain "''vote''" "[]"] happy_statuses
  by simp

section \<open>Cancelling instance creation: results\<close>

lemma isAddress_addrA: "isAddress K addrA"
  by (simp add: isAddress_def succeeds_def getAddress_addrA)


text \<open>
  C7 as stated fails. Between \<open>relayerSDK.createInstance(config)\<close> and the cache write there
  is no check of the signal; the check comes after \<open>publicKeyStorage.set\<close>. When the signal
  is set while the instance is being created, the key material is written to the cache and
  the call then rejects with the cancellation error.
\<close>

theorem late_abort_writes_cache:
  "fst (createFhevmInstance zeroHash BrowserProvider [] lateAbortWorld emptyStore) = Inl Cancelled
   \<and> publicKeyStore (snd (createFhevmInstance zeroHash BrowserProvider [] lateAbortWorld emptyStore)) addrA
        = Some stubKey
   \<and> publicKeyStore emptyStore addrA = None"
  by (simp add: createFhevmInstance_def createRealInstance_def lateAbortWorld_def throwIfAborted_def
        bindE_simps isAddress_addrA storageSet_def stubInstance_def emptyStore_def Let_def)

lemma preamble_Inr:
  fixes L I C :: "error + unit"
  assumes "bindE (throwIfAborted w BeforeSdk) (\<lambda>_.
             bindE (if \<not> sv then bindE L (\<lambda>_. throwIfAborted w AfterLoad) else Inr ()) (\<lambda>_.
             bindE (if \<not> si then bindE I (\<lambda>_. throwIfAborted w AfterInitSDK) else Inr ()) (\<lambda>_.
             bindE C (\<lambda>_.
             let cached = G in bindE (throwIfAborted w AfterCacheGet) (\<lambda>_. Inr cached))))) = Inr x"
  shows "\<not> aborted w BeforeSdk \<and> (sv \<or> \<not> aborted w AfterLoad)
         \<and> (si \<or> \<not> aborted w AfterInitSDK) \<and> \<not> aborted w AfterCacheGet \<and> x = G"
  using assms unfolding throwIfAborted_def Let_def
  by (auto dest!: bindE_Inr split: if_splits)

lemma createRealInstance_cases:
  assumes "createRealInstance K w st = (res, st')"
  shows "st' = st \<or>
     (\<not> aborted w BeforeSdk \<and> (sdkValid w \<or> \<not> aborted w AfterLoad)
      \<and> (sdkInitialized w \<or> \<not> aborted w AfterInitSDK) \<and> \<not> aborted w AfterCacheGet
      \<and> (\<exists>instance. createInstanceResult w (storageGet (dbRead w) st (aclContractAddress w)) = Inr instance
            \<and> st' = storageSet (dbWriteOk w) st (aclContractAddress w)
                      (getPublicKey instance) (getPublicParams instance)
            \<and> res = (if aborted w AfterCacheSet then Inl Cancelled else Inr instance)))"
proof -
  define pre where "pre = bindE (throwIfAborted w BeforeSdk) (\<lambda>_.
           bindE (if \<not> sdkValid w
                  then bindE (loadResult w) (\<lambda>_. throwIfAborted w AfterLoad)
                  else Inr ()) (\<lambda>_.
           bindE (if \<not> sdkInitialized w
                  then bindE (initSDKResult w) (\<lambda>_. throwIfAborted w AfterInitSDK)
                  else Inr ()) (\<lambda>_.
           bindE (if \<not> isAddress K (aclContractAddress w)
                  then Inl (InvalidAcl (aclContractAddress w))
                  else Inr ()) (\<lambda>_.
           let cached = storageGet (dbRead w) st (aclContractAddress w) in
           bindE (throwIfAborted w AfterCacheGet) (\<lambda>_. Inr cached)))))"
  have unfold: "createRealInstance K w st =
     (case pre of
        Inl e \<Rightarrow> (Inl e, st)
      | Inr cached \<Rightarrow>
          (case createInstanceResult w cached of
             Inl e \<Rightarrow> (Inl e, st)
           | Inr instance \<Rightarrow>
               let st' = storageSet (dbWriteOk w) st (aclContractAddress w)
                           (getPublicKey instance) (getPublicParams instance)
               in (case throwIfAborted w AfterCacheSet of
                     Inl e \<Rightarrow> (Inl e, st')
                   | Inr _ \<Rightarrow> (Inr instance, st'))))"
    unfolding createRealInstance_def pre_def by (rule refl)
  show ?thesis
  proof (cases pre)
    case (Inl e)
    with assms unfold show ?thesis by simp
  next
    case (Inr cached)
    from preamble_Inr [OF Inr [unfolded pre_def]]
    have p: "\<not> aborted w BeforeSdk" "sdkValid w \<or> \<not> aborted w AfterLoad"
      "sdkInitialized w \<or> \<not> aborted w AfterInitSDK" "\<not> aborted w AfterCacheGet"
      "cached = storageGet (dbRead w) st (aclContractAddress w)" by simp_all
    show ?thesis
    proof (cases "createInstanceResult w cached")
      case (Inl e)
      with assms unfold Inr show ?thesis by simp
    next
      case c: (Inr inst)
      with assms unfold Inr p show ?thesis
        by (auto simp: Let_def throwIfAborted_def split: if_splits)
    qed
  qed
qed

lemma createFhevmInstance_cases:
  assumes "createFhevmInstance K pr mc w st = (res, st')"
  shows "st' = st \<or> createRealInstance K w st = (res, st')"
  using assms unfolding createFhevmInstance_def Let_def
  by (auto split: sum.splits if_splits)


text \<open>
  C7 amended. \<open>createFhevmInstance\<close> checks the signal after its awaited steps (not before
  reading the chain id, and not between creating the instance and writing the cache). If
  the signal is set throughout and the chain id can be read, the call rejects with
  "FHEVM operation was cancelled" and the cache is as it was. The cache changes only if
  every check that was reached up to the cache read passed and \<open>createInstance\<close>
  succeeded; the cache then holds what \<open>set\<close> wrote, and the call rejects
  with the cancellation error exactly if the signal is set at the check after the write.
\<close>

theorem cancellation_and_cache:
  "(chainIdResult w = Inr n \<and> (\<forall>p. aborted w p) \<longrightarrow>
      createFhevmInstance K pr mc w st = (Inl Cancelled, st))
   \<and> (snd (createFhevmInstance K pr mc w st) \<noteq> st \<longrightarrow>
        \<not> aborted w BeforeSdk \<and> (sdkValid w \<or> \<not> aborted w AfterLoad)
        \<and> (sdkInitialized w \<or> \<not> aborted w AfterInitSDK) \<and> \<not> aborted w AfterCacheGet
        \<and> (\<exists>instance. createInstanceResult w (storageGet (dbRead w) st (aclContractAddress w))
                         = Inr instance
              \<and> snd (createFhevmInstance K pr mc w st)
                   = storageSet (dbWriteOk w) st (aclContractAddress w)
                       (getPublicKey instance) (getPublicParams instance)
              \<and> fst (createFhevmInstance K pr mc w st)
                   = (if aborted w AfterCacheSet then Inl Cancelled else Inr instance)))"
proof -
  have first: "createFhevmInstance K pr mc w st = (Inl Cancelled, st)"
    if "chainIdResult w = Inr n \<and> (\<forall>p. aborted w p)"
    using that
    by (simp add: createFhevmInstance_def createRealInstance_def throwIfAborted_def bindE_simps Let_def)
  have second: "\<not> aborted w BeforeSdk \<and> (sdkValid w \<or> \<not> aborted w AfterLoad)
        \<and> (sdkInitialized w \<or> \<not> aborted w AfterInitSDK) \<and> \<not> aborted w AfterCacheGet
        \<and> (\<exists>instance. createInstanceResult w (storageGet (dbRead w) st (aclContractAddress w))
                         = Inr instance
              \<and> snd (createFhevmInstance K pr mc w st)
                   = storageSet (dbWriteOk w) st (aclContractAddress w)
                       (getPublicKey instance) (getPublicParams instance)
              \<and> fst (createFhevmInstance K pr mc w st)
                   = (if aborted w AfterCacheSet then Inl Cancelled else Inr instance))"
    if ne: "snd (createFhevmInstance K pr mc w st) \<noteq> st"
  proof -
    obtain res st' where r: "createFhevmInstance K pr mc w st = (res, st')"
      by (cases "createFhevmInstance K pr mc w st")
    with ne have d: "st' \<noteq> st" by simp
    with createFhevmInstance_cases [OF r] have "createRealInstance K w st = (res, st')" by simp
    from createRealInstance_cases [OF this] d r show ?thesis by simp
  qed
  from first second show ?thesis by blast
qed


text \<open>
  Witness for C7 amended: on Sepolia with the signal set from the start, the call is
  cancelled and the empty cache stays empty.
\<close>

theorem cancellation_and_cache_witness:
  "createFhevmInstance zeroHash BrowserProvider [] (lateAbortWorld\<lparr>aborted := (\<lambda>p. True)\<rparr>) emptyStore
     = (Inl Cancelled, emptyStore)"
  using cancellation_and_cache
          [where w = "lateAbortWorld\<lparr>aborted := (\<lambda>p. True)\<rparr>" and n = 11155111
             and K = zeroHash and pr = BrowserProvider and mc = "[]" and st = emptyStore]
  by (simp add: lateAbortWorld_def)
section \<open>Rejections of executeMetaTransaction: results\<close>

lemma readyManager_params: "createEncryptedParams K readyManager [] = Inr []"
  by (simp add: createEncryptedParams_def readyManager_def)



lemma failingChain_outcome:
  "outcome (executeMetaTransaction readyManager failingChain name [])
     = Inl (MetaTransactionFailed (External ''insufficient funds''))"
  by (simp add: executeMetaTransaction_def submitTransaction_def readyManager_def failingChain_def
        happyChain_def Let_def)

lemma revertChain_outcome:
  "outcome (executeMetaTransaction readyManager revertChain name [])
     = Inl (MetaTransactionFailed CallException)"
  by (simp add: executeMetaTransaction_def submitTransaction_def wait_def bindE_simps
        readyManager_def revertChain_def happyChain_def Let_def)



subsection \<open>C8: an unsupported network\<close>









subsection \<open>C9: submission failures and reverts\<close>

text \<open>
  C9 as stated fails. When sending the transaction fails, \<open>executeMetaTransaction\<close> sets
  \<open>failed\<close> on its local record and then throws "Meta transaction failed: ..."; the record
  is returned to nobody. The hook's \<open>catch\<close> stores the message and rethrows: the call
  rejects and the history gets no entry. A revert goes the same way: \<open>wait()\<close> throws on a
  receipt with status 0.
\<close>

theorem submission_failure_is_thrown:
  "fst (hookExecuteMetaTransaction zeroHash readyHook failingChain ''requestVoteDecryption'' [])
     = Inl (MetaTransactionFailed (External ''insufficient funds''))
   \<and> transactions (hookState (fst (snd
        (hookExecuteMetaTransaction zeroHash readyHook failingChain ''requestVoteDecryption'' []))))
     = []
   \<and> fst (hookExecuteMetaTransaction zeroHash readyHook revertChain ''requestVoteDecryption'' [])
     = Inl (MetaTransactionFailed CallException)
   \<and> transactions (hookState (fst (snd
        (hookExecuteMetaTransaction zeroHash readyHook revertChain ''requestVoteDecryption'' []))))
     = []"
  by (simp add: hookExecuteMetaTransaction_def readyHook_def newHook_def initialState_def
        readyManager_params failingChain_outcome revertChain_outcome Let_def)


text \<open>
  C9 amended. When sending the transaction fails, when \<open>wait()\<close> fails, and when the
  transaction is mined with status 0 (a revert), the manager's record goes \<open>pending\<close>,
  \<open>processing\<close>, \<open>failed\<close> and the manager's \<open>executeMetaTransaction\<close> rejects with "Meta
  transaction failed: ...". Whenever the manager's call rejects, the hook's rejects with
  the same error, its error state holds "Transaction failed: ..." and its history is
  unchanged.
\<close>

theorem failures_of_executeMetaTransaction:
  "(metaManagerRef h = Some m \<and> createEncryptedParams K m params = Inr enc
      \<and> outcome (executeMetaTransaction m w name enc) = Inl e \<longrightarrow>
      fst (hookExecuteMetaTransaction K h w name params) = Inl e
      \<and> transactions (hookState (fst (snd (hookExecuteMetaTransaction K h w name params))))
          = transactions (hookState h)
      \<and> hookError (hookState (fst (snd (hookExecuteMetaTransaction K h w name params))))
          = Some (TransactionFailed e))
   \<and> (isInitialized m \<and> managerClient m \<noteq> None \<and> signerAddress w = Inr u
        \<and> contractSigner w = Inr () \<and> hasFunction w name
        \<and> sendResult w name (concat (map (\<lambda>p. [paramHandle p, paramProof p]) enc)) = Inl e \<longrightarrow>
      outcome (executeMetaTransaction m w name enc) = Inl (MetaTransactionFailed e)
      \<and> map status (snapshots (executeMetaTransaction m w name enc)) = [Pending, Processing, Failed])
   \<and> (isInitialized m \<and> managerClient m \<noteq> None \<and> signerAddress w = Inr u
        \<and> contractSigner w = Inr () \<and> hasFunction w name
        \<and> sendResult w name (concat (map (\<lambda>p. [paramHandle p, paramProof p]) enc)) = Inr hash
        \<and> minedReceipt w hash = Inl e \<longrightarrow>
      outcome (executeMetaTransaction m w name enc) = Inl (MetaTransactionFailed e)
      \<and> map status (snapshots (executeMetaTransaction m w name enc))
          = [Pending, Processing, Processing, Failed])
   \<and> (isInitialized m \<and> managerClient m \<noteq> None \<and> signerAddress w = Inr u
        \<and> contractSigner w = Inr () \<and> hasFunction w name
        \<and> sendResult w name (concat (map (\<lambda>p. [paramHandle p, paramProof p]) enc)) = Inr hash
        \<and> minedReceipt w hash = Inr rc \<and> receiptStatus rc = Some 0 \<longrightarrow>
      outcome (executeMetaTransaction m w name enc) = Inl (MetaTransactionFailed CallException)
      \<and> map status (snapshots (executeMetaTransaction m w name enc))
          = [Pending, Processing, Processing, Failed])"
proof (intro conjI impI)
  assume a: "metaManagerRef h = Some m \<and> createEncryptedParams K m params = Inr enc
      \<and> outcome (executeMetaTransaction m w name enc) = Inl e"
  then show "fst (hookExecuteMetaTransaction K h w name params) = Inl e"
    by (simp add: hookExecuteMetaTransaction_def Let_def)
  from a show "transactions (hookState (fst (snd (hookExecuteMetaTransaction K h w name params))))
          = transactions (hookState h)"
    by (simp add: hookExecuteMetaTransaction_def Let_def)
  from a show "hookError (hookState (fst (snd (hookExecuteMetaTransaction K h w name params))))
          = Some (TransactionFailed e)"
    by (simp add: hookExecuteMetaTransaction_def Let_def)
next
  assume a: "isInitialized m \<and> managerClient m \<noteq> None \<and> signerAddress w = Inr u
        \<and> contractSigner w = Inr () \<and> hasFunction w name
        \<and> sendResult w name (concat (map (\<lambda>p. [paramHandle p, paramProof p]) enc)) = Inl e"
  then show "outcome (executeMetaTransaction m w name enc) = Inl (MetaTransactionFailed e)"
    by (simp add: executeMetaTransaction_def submitTransaction_def Let_def)
  from a show "map status (snapshots (executeMetaTransaction m w name enc)) = [Pending, Processing, Failed]"
    by (simp add: executeMetaTransaction_def submitTransaction_def Let_def)
next
  assume a: "isInitialized m \<and> managerClient m \<noteq> None \<and> signerAddress w = Inr u
        \<and> contractSigner w = Inr () \<and> hasFunction w name
        \<and> sendResult w name (concat (map (\<lambda>p. [paramHandle p, paramProof p]) enc)) = Inr hash
        \<and> minedReceipt w hash = Inl e"
  then show "outcome (executeMetaTransaction m w name enc) = Inl (MetaTransactionFailed e)"
    by (simp add: executeMetaTransaction_def submitTransaction_def wait_def bindE_simps Let_def)
  from a show "map status (snapshots (executeMetaTransaction m w name enc))
          = [Pending, Processing, Processing, Failed]"
    by (simp add: executeMetaTransaction_def submitTransaction_def wait_def bindE_simps Let_def)
next
  assume a: "isInitialized m \<and> managerClient m \<noteq> None \<and> signerAddress w = Inr u
        \<and> contractSigner w = Inr () \<and> hasFunction w name
        \<and> sendResult w name (concat (map (\<lambda>p. [paramHandle p, paramProof p]) enc)) = Inr hash
        \<and> minedReceipt w hash = Inr rc \<and> receiptStatus rc = Some 0"
  then show "outcome (executeMetaTransaction m w name enc) = Inl (MetaTransactionFailed CallException)"
    by (simp add: executeMetaTransaction_def submitTransaction_def wait_def bindE_simps Let_def)
  from a show "map status (snapshots (executeMetaTransaction m w name enc))
          = [Pending, Processing, Processing, Failed]"
    by (simp add: executeMetaTransaction_def submitTransaction_def wait_def bindE_simps Let_def)
qed


text \<open>
  Witness for C9 amended: a chain that refuses the transaction, and one where it is mined
  with status 0. In both the manager's record ends \<open>failed\<close>, the hook's call rejects with
  the manager's error and the hook's history is as it was.
\<close>

theorem failures_of_executeMetaTransaction_witness:
  "map status (snapshots (executeMetaTransaction readyManager failingChain ''requestVoteDecryption'' []))
       = [Pending, Processing, Failed]
   \<and> fst (hookExecuteMetaTransaction zeroHash readyHook failingChain ''requestVoteDecryption'' [])
       = Inl (MetaTransactionFailed (External ''insufficient funds''))
   \<and> transactions (hookState (fst (snd
        (hookExecuteMetaTransaction zeroHash readyHook failingChain ''requestVoteDecryption'' []))))
       = transactions (hookState readyHook)
   \<and> map status (snapshots (executeMetaTransaction readyManager revertChain ''requestVoteDecryption'' []))
       = [Pending, Processing, Processing, Failed]
   \<and> fst (hookExecuteMetaTransaction zeroHash readyHook revertChain ''requestVoteDecryption'' [])
       = Inl (MetaTransactionFailed CallException)
   \<and> transactions (hookState (fst (snd
        (hookExecuteMetaTransaction zeroHash readyHook revertChain ''requestVoteDecryption'' []))))
       = transactions (hookState readyHook)"
proof -
  note t = failures_of_executeMetaTransaction
  have ready: "isInitialized readyManager" "managerClient readyManager \<noteq> None"
    by (simp_all add: readyManager_def)
  have hook: "metaManagerRef readyHook = Some readyManager"
    "createEncryptedParams zeroHash readyManager [] = Inr []"
    by (simp_all add: readyHook_def readyManager_params)
  have failing: "signerAddress failingChain = Inr addrB" "contractSigner failingChain = Inr ()"
    "hasFunction failingChain ''requestVoteDecryption''"
    "sendResult failingChain ''requestVoteDecryption'' (concat (map (\<lambda>p. [paramHandle p, paramProof p]) []))
       = Inl (External ''insufficient funds'')"
    by (simp_all add: failingChain_def happyChain_def)
  have revert: "signerAddress revertChain = Inr addrB" "contractSigner revertChain = Inr ()"
    "hasFunction revertChain ''requestVoteDecryption''"
    "sendResult revertChain ''requestVoteDecryption'' (concat (map (\<lambda>p. [paramHandle p, paramProof p]) []))
       = Inr ''0xabc1''"
    "minedReceipt revertChain ''0xabc1''
       = Inr \<lparr>receiptStatus = Some 0, receiptBlockNumber = 100, receiptGasUsed = ''21000''\<rparr>"
    "receiptStatus \<lparr>receiptStatus = Some 0, receiptBlockNumber = 100, receiptGasUsed = ''21000''\<rparr>
       = Some 0"
    by (simp_all add: revertChain_def happyChain_def)
  from t [THEN conjunct2, THEN conjunct1, rule_format] ready failing
  have 1: "outcome (executeMetaTransaction readyManager failingChain ''requestVoteDecryption'' [])
             = Inl (MetaTransactionFailed (External ''insufficient funds''))
           \<and> map status (snapshots (executeMetaTransaction readyManager failingChain ''requestVoteDecryption'' []))
             = [Pending, Processing, Failed]"
    by blast
  from t [THEN conjunct2, THEN conjunct2, THEN conjunct2, rule_format] ready revert
  have 2: "outcome (executeMetaTransaction readyManager revertChain ''requestVoteDecryption'' [])
             = Inl (MetaTransactionFailed CallException)
           \<and> map status (snapshots (executeMetaTransaction readyManager revertChain ''requestVoteDecryption'' []))
             = [Pending, Processing, Processing, Failed]"
    by blast
  from t [THEN conjunct1, rule_format, of readyHook readyManager zeroHash "[]" "[]" failingChain] hook 1
  have 3: "fst (hookExecuteMetaTransaction zeroHash readyHook failingChain ''requestVoteDecryption'' [])
       = Inl (MetaTransactionFailed (External ''insufficient funds''))
   \<and> transactions (hookState (fst (snd
        (hookExecuteMetaTransaction zeroHash readyHook failingChain ''requestVoteDecryption'' []))))
       = transactions (hookState readyHook)"
    by blast
  from t [THEN conjunct1, rule_format, of readyHook readyManager zeroHash "[]" "[]" revertChain] hook 2
  have 4: "fst (hookExecuteMetaTransaction zeroHash readyHook revertChain ''requestVoteDecryption'' [])
       = Inl (MetaTransactionFailed CallException)
   \<and> transactions (hookState (fst (snd
        (hookExecuteMetaTransaction zeroHash readyHook revertChain ''requestVoteDecryption'' []))))
       = transactions (hookState readyHook)"
    by blast
  from 1 2 3 4 show ?thesis by blast
qed
section \<open>Readiness: results\<close>

lemma initialize_chainId: "chainId (fst (initialize K c w st)) = chainId c"
  by (simp add: initialize_def split: prod.splits sum.splits)

lemma initialize_instance:
  "fhevmInstance (fst (initialize K c w st)) =
     (case fst (createFhevmInstance K (provider c) [(31337, ''http://localhost:8545'')]
                  (w\<lparr>aborted := (\<lambda>p. False)\<rparr>) st) of
        Inl e \<Rightarrow> None | Inr instance \<Rightarrow> Some instance)"
  by (simp add: initialize_def split: prod.splits sum.splits)


text \<open>
  C10. \<open>isReady\<close> of the client looks at the chain id alone: it does not change with the
  instance; after \<open>initialize\<close> it is true exactly for 11155111 and 31337; when
  \<open>createFhevmInstance\<close> fails, \<open>initialize\<close> still returns, with the instance \<open>null\<close>, and
  \<open>isReady\<close> is the same test. A manager whose \<open>initialize\<close> got the chain id \<open>n\<close> from the
  provider is initialised, and its \<open>isReady\<close> is true exactly when \<open>n\<close> is one of the two.
\<close>

theorem isReady_depends_on_chainId_only:
  "isReady (c\<lparr>fhevmInstance := instance\<rparr>) = (chainId c = 11155111 \<or> chainId c = 31337)
   \<and> isReady (fst (initialize K c w st)) = (chainId c = 11155111 \<or> chainId c = 31337)
   \<and> (\<forall>e st'. createFhevmInstance K (provider c) [(31337, ''http://localhost:8545'')]
                  (w\<lparr>aborted := (\<lambda>p. False)\<rparr>) st = (Inl e, st')
         \<longrightarrow> fhevmInstance (fst (initialize K c w st)) = None
             \<and> isReady (fst (initialize K c w st)) = (chainId c = 11155111 \<or> chainId c = 31337))
   \<and> (\<exists>m' st'. managerInitialize K m (Inr n) w st = (Inr m', st')
         \<and> managerIsReady m' = (n = 11155111 \<or> n = 31337))"
proof (intro conjI allI impI)
  show "isReady (c\<lparr>fhevmInstance := instance\<rparr>) = (chainId c = 11155111 \<or> chainId c = 31337)"
    by (simp add: isReady_def)
  show r: "isReady (fst (initialize K c w st)) = (chainId c = 11155111 \<or> chainId c = 31337)"
    by (simp add: isReady_def initialize_chainId)
  fix e st'
  assume "createFhevmInstance K (provider c) [(31337, ''http://localhost:8545'')]
            (w\<lparr>aborted := (\<lambda>p. False)\<rparr>) st = (Inl e, st')"
  then show "fhevmInstance (fst (initialize K c w st)) = None"
    by (simp add: initialize_instance)
  show "isReady (fst (initialize K c w st)) = (chainId c = 11155111 \<or> chainId c = 31337)"
    by (rule r)
next
  let ?c0 = "\<lparr>provider = BrowserProvider, chainId = n, fhevmInstance = None\<rparr>"
  obtain client st' where i: "initialize K ?c0 w st = (client, st')"
    by (cases "initialize K ?c0 w st")
  then have "chainId client = n" using initialize_chainId [of K ?c0 w st] by simp
  with i show "\<exists>m' st'. managerInitialize K m (Inr n) w st = (Inr m', st')
         \<and> managerIsReady m' = (n = 11155111 \<or> n = 31337)"
    by (simp add: managerInitialize_def createFHEVMClient_def managerIsReady_def isReady_def)
qed

lemma brokenWorld_fails:
  "createFhevmInstance zeroHash (provider sepoliaClient) [(31337, ''http://localhost:8545'')]
     (brokenWorld\<lparr>aborted := (\<lambda>p. False)\<rparr>) emptyStore
   = (Inl (External ''network unreachable''), emptyStore)"
  by (simp add: createFhevmInstance_def brokenWorld_def)


text \<open>
  Witness for C10: on Sepolia, with a provider whose chain id cannot be read inside
  \<open>createFhevmInstance\<close>, the instance is \<open>null\<close> and the client is ready.
\<close>

theorem isReady_depends_on_chainId_only_witness:
  "fhevmInstance (fst (initialize zeroHash sepoliaClient brokenWorld emptyStore)) = None
   \<and> isReady (fst (initialize zeroHash sepoliaClient brokenWorld emptyStore))"
  using isReady_depends_on_chainId_only [where c = sepoliaClient and K = zeroHash and w = brokenWorld and st = emptyStore]
        brokenWorld_fails
  by (simp add: sepoliaClient_def)

end
